theory Spec2Isabelle
  imports Main "HOL-Library.AList" "HOL-Library.Word"
begin

section \<open>The Socket.IO SNS/SQS emitter (lib/index.ts)\<close>

text \<open>
  The emitter builds control messages for a cluster of Socket.IO servers and hands them to
  an SNS client. This theory embeds \<^verbatim>\<open>lib/index.ts\<close>: the function \<^verbatim>\<open>publish\<close>, the class
  \<^verbatim>\<open>Emitter\<close> and the class \<^verbatim>\<open>BroadcastOperator\<close>.

  What the module imports is a parameter of the model (the record \<open>env\<close>): the enum
  \<^verbatim>\<open>MessageType\<close> of \<^verbatim>\<open>socket.io-adapter\<close>, \<^verbatim>\<open>PacketType.EVENT\<close> of \<^verbatim>\<open>socket.io-parser\<close> and
  \<^verbatim>\<open>encode\<close> of \<^verbatim>\<open>notepack.io\<close>. The SNS client is a field of the emitter, as in the source.
  The calls that leave the module are recorded in the state, in order: the values given to
  \<^verbatim>\<open>encode\<close>, the commands given to \<^verbatim>\<open>client.send\<close>, the values given to \<^verbatim>\<open>console.log\<close>.
  The codec may throw, as it does on a function; \<^verbatim>\<open>send\<close> may resolve, reject or throw.
  The \<^verbatim>\<open>Set\<close> objects and the flags objects live in a store, since \<^verbatim>\<open>Set.prototype.add\<close>
  and \<^verbatim>\<open>Object.assign\<close> mutate their target and the operators share these objects.
\<close>

subsection \<open>JavaScript values\<close>

type_synonym byte = "8 word"

text \<open>
  The values an argument list can hold. Numbers are restricted to integers; a function
  value is identified by a number; a \<^verbatim>\<open>Buffer\<close> is its bytes. An object is its own
  enumerable properties in insertion order.
\<close>

datatype js =
    JUndefined
  | JNull
  | JBool bool
  | JNum int
  | JStr string
  | JArr "js list"
  | JObj "(string \<times> js) list"
  | JFun nat
  | JBuf "byte list"

fun typeof :: "js \<Rightarrow> string" where
  "typeof JUndefined = ''undefined''"
| "typeof JNull = ''object''"
| "typeof (JBool b) = ''boolean''"
| "typeof (JNum n) = ''number''"
| "typeof (JStr s) = ''string''"
| "typeof (JArr xs) = ''object''"
| "typeof (JObj kvs) = ''object''"
| "typeof (JFun f) = ''function''"
| "typeof (JBuf bs) = ''object''"

text \<open>The test of \<^verbatim>\<open>if (v)\<close>.\<close>

fun truthy :: "js \<Rightarrow> bool" where
  "truthy JUndefined = False"
| "truthy JNull = False"
| "truthy (JBool b) = b"
| "truthy (JNum n) = (n \<noteq> 0)"
| "truthy (JStr s) = (s \<noteq> [])"
| "truthy (JArr xs) = True"
| "truthy (JObj kvs) = True"
| "truthy (JFun f) = True"
| "truthy (JBuf bs) = True"

text \<open>\<^verbatim>\<open>xs[i]\<close>: \<^verbatim>\<open>undefined\<close> outside the array.\<close>

definition index :: "js list \<Rightarrow> int \<Rightarrow> js" where
  "index xs i = (if 0 \<le> i \<and> i < int (length xs) then xs ! nat i else JUndefined)"

text \<open>\<^verbatim>\<open>s[0]\<close> of a string: \<^verbatim>\<open>undefined\<close> (here \<open>None\<close>) when the string is empty.\<close>

definition first_char :: "string \<Rightarrow> char option" where
  "first_char s = (case s of [] \<Rightarrow> None | c # _ \<Rightarrow> Some c)"

text \<open>\<^verbatim>\<open>String(n)\<close> of a natural number: its decimal digits.\<close>

definition digit :: "nat \<Rightarrow> char" where
  "digit d = ''0123456789'' ! d"

fun String_number :: "nat \<Rightarrow> string" where
  "String_number n =
     (if n < 10 then [digit n] else String_number (n div 10) @ [digit (n mod 10)])"

declare String_number.simps [simp del]

subsection \<open>Constants and imported names\<close>

definition UID :: string where
  "UID = ''emitter''"

text \<open>
  The enum \<^verbatim>\<open>RequestType\<close> that the module declares. No function of the module refers
  to it.
\<close>

datatype RequestType =
    SOCKETS
  | ALL_ROOMS
  | REMOTE_JOIN
  | REMOTE_LEAVE
  | REMOTE_DISCONNECT
  | REMOTE_FETCH
  | SERVER_SIDE_EMIT


text \<open>
  The members of \<^verbatim>\<open>MessageType\<close> (imported from \<^verbatim>\<open>socket.io-adapter\<close>) that the module
  uses. Their values are not in this repository.
\<close>

record MessageType =
  BROADCAST :: nat
  SOCKETS_JOIN :: nat
  SOCKETS_LEAVE :: nat
  DISCONNECT_SOCKETS :: nat
  SERVER_SIDE_EMIT :: nat

text \<open>A thrown or rejected value: an \<^verbatim>\<open>Error\<close> with its message.\<close>

datatype exn = Error string

record env =
  MessageType :: MessageType
  PacketType_EVENT :: nat
  encode :: "js \<Rightarrow> exn + byte list"

text \<open>
  The values the enum has in \<^verbatim>\<open>socket.io-adapter\<close> (cluster-adapter.ts), which counts its
  members from \<^verbatim>\<open>INITIAL_HEARTBEAT = 1\<close>: \<^verbatim>\<open>HEARTBEAT\<close> 2, \<^verbatim>\<open>BROADCAST\<close> 3, \<^verbatim>\<open>SOCKETS_JOIN\<close> 4,
  \<^verbatim>\<open>SOCKETS_LEAVE\<close> 5, \<^verbatim>\<open>DISCONNECT_SOCKETS\<close> 6, \<^verbatim>\<open>FETCH_SOCKETS\<close> 7,
  \<^verbatim>\<open>FETCH_SOCKETS_RESPONSE\<close> 8, \<^verbatim>\<open>SERVER_SIDE_EMIT\<close> 9; and \<^verbatim>\<open>PacketType.EVENT\<close> is 2 in
  \<^verbatim>\<open>socket.io-parser\<close>.

  The codec of this environment fails where \<^verbatim>\<open>notepack.io\<close> does on the values of \<open>js\<close>: it
  throws \<^verbatim>\<open>Error("Could not encode")\<close> on a function, alone or as an element of an array at
  any depth, and skips a property whose value is a function or \<^verbatim>\<open>undefined\<close>. Where it does
  not throw it returns no bytes: the examples below read the value given to the codec, not
  its bytes.
\<close>

definition adapter_MessageType :: MessageType where
  "adapter_MessageType =
     \<lparr>BROADCAST = 3, SOCKETS_JOIN = 4, SOCKETS_LEAVE = 5, DISCONNECT_SOCKETS = 6,
      SERVER_SIDE_EMIT = 9\<rparr>"

fun could_encode :: "js \<Rightarrow> bool" where
  "could_encode (JFun f) = False"
| "could_encode (JArr xs) = list_all could_encode xs"
| "could_encode (JObj kvs) =
     list_all could_encode
       (filter (\<lambda>v. typeof v \<noteq> ''function'' \<and> v \<noteq> JUndefined) (map snd kvs))"
| "could_encode v = True"

definition example_encode :: "js \<Rightarrow> exn + byte list" where
  "example_encode v = (if could_encode v then Inr [] else Inl (Error ''Could not encode''))"

definition adapter_env :: env where
  "adapter_env =
     \<lparr>MessageType = adapter_MessageType, PacketType_EVENT = 2, encode = example_encode\<rparr>"

subsection \<open>The SNS client and the state\<close>

record MessageAttributeValue =
  DataType :: string
  StringValue :: "string option"
  BinaryValue :: "byte list option"

text \<open>The input of \<^verbatim>\<open>new PublishCommand(...)\<close>.\<close>

record PublishCommand =
  TopicArn :: string
  Message :: string
  MessageAttributes :: "string \<rightharpoonup> MessageAttributeValue"

text \<open>
  What \<^verbatim>\<open>client.send(command)\<close> does: it returns a promise that resolves, a promise that
  rejects, or it throws before returning.
\<close>

datatype send_result = Resolved | Rejected exn | Thrown exn

record SNS =
  send :: "PublishCommand \<Rightarrow> send_result"

type_synonym ref = nat

text \<open>
  The store and the traces. A \<^verbatim>\<open>Set<string>\<close> is the list of its members in insertion
  order; a flags object is the list of its keys and values in insertion order.
\<close>

record state =
  Sets :: "ref \<Rightarrow> string list"
  Objects :: "ref \<Rightarrow> (string \<times> bool) list"
  next_ref :: ref
  encoded :: "js list"
  sent :: "PublishCommand list"
  console :: "exn list"

text \<open>\<^verbatim>\<open>set.add(x)\<close> on the members of a set.\<close>

definition Set_add :: "string \<Rightarrow> string list \<Rightarrow> string list" where
  "Set_add x xs = (if x \<in> set xs then xs else xs @ [x])"

text \<open>\<^verbatim>\<open>new Set(iterable)\<close>: a new object, to which each element is added in turn.\<close>

definition new_Set :: "string list \<Rightarrow> state \<Rightarrow> ref \<times> state" where
  "new_Set iterable s =
     (next_ref s,
      s\<lparr>Sets := (Sets s)(next_ref s := fold Set_add iterable []),
        next_ref := Suc (next_ref s)\<rparr>)"

definition add :: "ref \<Rightarrow> string \<Rightarrow> state \<Rightarrow> state" where
  "add r x s = s\<lparr>Sets := (Sets s)(r := Set_add x (Sets s r))\<rparr>"

text \<open>\<^verbatim>\<open>{}\<close>: a new object without properties.\<close>

definition new_Object :: "state \<Rightarrow> ref \<times> state" where
  "new_Object s =
     (next_ref s, s\<lparr>Objects := (Objects s)(next_ref s := []), next_ref := Suc (next_ref s)\<rparr>)"

text \<open>
  \<^verbatim>\<open>Object.assign(target, source)\<close>: each property of the source is written to the target,
  in the source's order; a key the target has keeps its place.
\<close>

definition Object_assign :: "ref \<Rightarrow> (string \<times> bool) list \<Rightarrow> state \<Rightarrow> state" where
  "Object_assign target source s =
     s\<lparr>Objects := (Objects s)
        (target := fold (\<lambda>(k, v). AList.update k v) source (Objects s target))\<rparr>"

text \<open>A set spread into an array of strings, and a flags object, as values.\<close>

definition spread :: "string list \<Rightarrow> js" where
  "spread xs = JArr (map JStr xs)"

definition flags_value :: "(string \<times> bool) list \<Rightarrow> js" where
  "flags_value fl = JObj (map (\<lambda>(k, v). (k, JBool v)) fl)"

subsection \<open>publish\<close>

text \<open>
  The function never throws and its promise never rejects: a throw inside \<^verbatim>\<open>try\<close> and a
  rejection of \<^verbatim>\<open>client.send\<close> both end in \<^verbatim>\<open>console.log\<close>. The codec is called inside
  \<^verbatim>\<open>try\<close>, before \<^verbatim>\<open>client.send\<close>: when it throws, its error is logged and no command is
  built or sent. The parameter \<open>uid\<close> is not read; the attribute is filled from the constant
  \<open>UID\<close>. The callers pass a string for \<open>nsp\<close>, so \<^verbatim>\<open>if (nsp)\<close> tests that the string is not
  empty. The local \<^verbatim>\<open>messageAttributes\<close> is a definition of its own: the error of the codec,
  or the attributes.
\<close>

definition messageAttributes ::
  "env \<Rightarrow> string \<Rightarrow> js \<Rightarrow> exn + (string \<rightharpoonup> MessageAttributeValue)" where
  "messageAttributes env nsp data =
     (let a0 = Map.empty;
          a1 = (if nsp \<noteq> []
                then a0(''nsp'' \<mapsto>
                  \<lparr>DataType = ''String'', StringValue = Some nsp, BinaryValue = None\<rparr>)
                else a0);
          a2 = (if UID \<noteq> []
                then a1(''uid'' \<mapsto>
                  \<lparr>DataType = ''String'', StringValue = Some UID, BinaryValue = None\<rparr>)
                else a1)
      in if truthy data
         then (case encode env data of
                 Inl e \<Rightarrow> Inl e
               | Inr bytes \<Rightarrow>
                   Inr (a2(''data'' \<mapsto>
                     \<lparr>DataType = ''Binary'', StringValue = None, BinaryValue = Some bytes\<rparr>)))
         else Inr a2)"

definition publish ::
  "env \<Rightarrow> SNS \<Rightarrow> string \<Rightarrow> nat \<Rightarrow> string \<Rightarrow> string \<Rightarrow> js \<Rightarrow> state \<Rightarrow> state" where
  "publish env client topic type nsp uid data s =
     (let s1 = (if truthy data then s\<lparr>encoded := encoded s @ [data]\<rparr> else s)
      in case messageAttributes env nsp data of
           Inl e \<Rightarrow> s1\<lparr>console := console s1 @ [e]\<rparr>
         | Inr attributes \<Rightarrow>
             (let command = \<lparr>TopicArn = topic, Message = String_number type,
                             MessageAttributes = attributes\<rparr>;
                  s2 = s1\<lparr>sent := sent s1 @ [command]\<rparr>
              in case send client command of
                   Resolved \<Rightarrow> s2
                 | Rejected e \<Rightarrow> s2\<lparr>console := console s2 @ [e]\<rparr>
                 | Thrown e \<Rightarrow> s2\<lparr>console := console s2 @ [e]\<rparr>))"

subsection \<open>BroadcastOperator\<close>

record BroadcastOptions =
  nsp :: string
  topicArn :: string

record BroadcastOperator =
  snsClient :: SNS
  broadcastOptions :: BroadcastOptions
  rooms :: ref
  exceptRooms :: ref
  flags :: ref

text \<open>
  \<^verbatim>\<open>new BroadcastOperator(snsClient, broadcastOptions)\<close>: the default parameters create two
  empty sets and an empty flags object.
\<close>

definition new_BroadcastOperator ::
  "SNS \<Rightarrow> BroadcastOptions \<Rightarrow> state \<Rightarrow> BroadcastOperator \<times> state" where
  "new_BroadcastOperator client opts s =
     (let (r, s1) = new_Set [] s;
          (e, s2) = new_Set [] s1;
          (f, s3) = new_Object s2
      in (\<lparr>snsClient = client, broadcastOptions = opts, rooms = r, exceptRooms = e,
           flags = f\<rparr>, s3))"

text \<open>A room argument: \<^verbatim>\<open>string | string[]\<close>, told apart by \<^verbatim>\<open>Array.isArray\<close>.\<close>

datatype room_arg = Room string | Rooms "string list"

definition BroadcastOperator_to ::
  "BroadcastOperator \<Rightarrow> room_arg \<Rightarrow> state \<Rightarrow> BroadcastOperator \<times> state" where
  "BroadcastOperator_to this room s =
     (let (rooms', s1) = new_Set (Sets s (rooms this)) s;
          s2 = (case room of
                  Rooms rs \<Rightarrow> fold (\<lambda>r. add rooms' r) rs s1
                | Room r \<Rightarrow> add rooms' r s1)
      in (\<lparr>snsClient = snsClient this, broadcastOptions = broadcastOptions this,
           rooms = rooms', exceptRooms = exceptRooms this, flags = flags this\<rparr>, s2))"

definition BroadcastOperator_in ::
  "BroadcastOperator \<Rightarrow> room_arg \<Rightarrow> state \<Rightarrow> BroadcastOperator \<times> state" where
  "BroadcastOperator_in this room s = BroadcastOperator_to this room s"

definition BroadcastOperator_except ::
  "BroadcastOperator \<Rightarrow> room_arg \<Rightarrow> state \<Rightarrow> BroadcastOperator \<times> state" where
  "BroadcastOperator_except this room s =
     (let (exceptRooms', s1) = new_Set (Sets s (exceptRooms this)) s;
          s2 = (case room of
                  Rooms rs \<Rightarrow> fold (\<lambda>r. add exceptRooms' r) rs s1
                | Room r \<Rightarrow> add exceptRooms' r s1)
      in (\<lparr>snsClient = snsClient this, broadcastOptions = broadcastOptions this,
           rooms = rooms this, exceptRooms = exceptRooms', flags = flags this\<rparr>, s2))"

definition BroadcastOperator_compress ::
  "BroadcastOperator \<Rightarrow> bool \<Rightarrow> state \<Rightarrow> BroadcastOperator \<times> state" where
  "BroadcastOperator_compress this compress s =
     (let (flags', s1) = new_Object s;
          s2 = Object_assign flags' (Objects s1 (flags this)) s1;
          s3 = Object_assign flags' [(''compress'', compress)] s2
      in (\<lparr>snsClient = snsClient this, broadcastOptions = broadcastOptions this,
           rooms = rooms this, exceptRooms = exceptRooms this, flags = flags'\<rparr>, s3))"

definition BroadcastOperator_volatile ::
  "BroadcastOperator \<Rightarrow> state \<Rightarrow> BroadcastOperator \<times> state" where
  "BroadcastOperator_volatile this s =
     (let (flags', s1) = new_Object s;
          s2 = Object_assign flags' (Objects s1 (flags this)) s1;
          s3 = Object_assign flags' [(''volatile'', True)] s2
      in (\<lparr>snsClient = snsClient this, broadcastOptions = broadcastOptions this,
           rooms = rooms this, exceptRooms = exceptRooms this, flags = flags'\<rparr>, s3))"

definition RESERVED_EVENTS :: "string list" where
  "RESERVED_EVENTS =
     [''connect'', ''connect_error'', ''disconnect'', ''disconnecting'', ''newListener'',
      ''removeListener'']"

text \<open>
  The terminal actions return the thrown error or the value the promise resolves to,
  with the state. The event name is a string.
\<close>

definition BroadcastOperator_emit ::
  "env \<Rightarrow> BroadcastOperator \<Rightarrow> string \<Rightarrow> js list \<Rightarrow> state \<Rightarrow> (exn + bool) \<times> state" where
  "BroadcastOperator_emit env this ev args s =
     (if ev \<in> set RESERVED_EVENTS
      then (Inl (Error (CHR 0x22 # ev @ CHR 0x22 # '' is a reserved event name'')), s)
      else
        let data = JStr ev # args;
            packet = JObj [(''type'', JNum (int (PacketType_EVENT env))),
                           (''data'', JArr data),
                           (''nsp'', JStr (nsp (broadcastOptions this)))];
            opts = JObj [(''rooms'', spread (Sets s (rooms this))),
                         (''flags'', flags_value (Objects s (flags this))),
                         (''except'', spread (Sets s (exceptRooms this)))]
        in (Inr True,
            publish env (snsClient this) (topicArn (broadcastOptions this))
              (BROADCAST (MessageType env)) (nsp (broadcastOptions this)) UID
              (JObj [(''packet'', packet), (''opts'', opts)]) s))"

text \<open>\<^verbatim>\<open>Array.isArray(rooms) ? rooms : [rooms]\<close>\<close>

definition room_list :: "room_arg \<Rightarrow> string list" where
  "room_list room = (case room of Rooms rs \<Rightarrow> rs | Room r \<Rightarrow> [r])"

definition BroadcastOperator_socketsJoin ::
  "env \<Rightarrow> BroadcastOperator \<Rightarrow> room_arg \<Rightarrow> state \<Rightarrow> (exn + unit) \<times> state" where
  "BroadcastOperator_socketsJoin env this rooms_arg s =
     (Inr (),
      publish env (snsClient this) (topicArn (broadcastOptions this))
        (SOCKETS_JOIN (MessageType env)) (nsp (broadcastOptions this)) UID
        (JObj [(''opts'', JObj [(''rooms'', spread (Sets s (rooms this))),
                                (''except'', spread (Sets s (exceptRooms this)))]),
               (''rooms'', spread (room_list rooms_arg))]) s)"

definition BroadcastOperator_socketsLeave ::
  "env \<Rightarrow> BroadcastOperator \<Rightarrow> room_arg \<Rightarrow> state \<Rightarrow> (exn + unit) \<times> state" where
  "BroadcastOperator_socketsLeave env this rooms_arg s =
     (Inr (),
      publish env (snsClient this) (topicArn (broadcastOptions this))
        (SOCKETS_LEAVE (MessageType env)) (nsp (broadcastOptions this)) UID
        (JObj [(''opts'', JObj [(''rooms'', spread (Sets s (rooms this))),
                                (''except'', spread (Sets s (exceptRooms this)))]),
               (''rooms'', spread (room_list rooms_arg))]) s)"

definition BroadcastOperator_disconnectSockets ::
  "env \<Rightarrow> BroadcastOperator \<Rightarrow> bool \<Rightarrow> state \<Rightarrow> (exn + unit) \<times> state" where
  "BroadcastOperator_disconnectSockets env this close s =
     (Inr (),
      publish env (snsClient this) (topicArn (broadcastOptions this))
        (DISCONNECT_SOCKETS (MessageType env)) (nsp (broadcastOptions this)) UID
        (JObj [(''opts'', JObj [(''rooms'', spread (Sets s (rooms this))),
                                (''except'', spread (Sets s (exceptRooms this)))]),
               (''close'', JBool close)]) s)"

subsection \<open>Emitter\<close>

record Emitter =
  snsClient :: SNS
  topicArn :: string
  nsp :: string
  broadcastOptions :: BroadcastOptions

text \<open>The constructor; \<open>None\<close> is the omitted third argument, whose default is \<^verbatim>\<open>"/"\<close>.\<close>

definition new_Emitter :: "SNS \<Rightarrow> string \<Rightarrow> string option \<Rightarrow> Emitter" where
  "new_Emitter client topic nsp_arg =
     (let n = (case nsp_arg of None \<Rightarrow> ''/'' | Some p \<Rightarrow> p)
      in \<lparr>snsClient = client, topicArn = topic, nsp = n,
          broadcastOptions = \<lparr>BroadcastOptions.nsp = n, BroadcastOptions.topicArn = topic\<rparr>\<rparr>)"

definition Emitter_of :: "Emitter \<Rightarrow> string \<Rightarrow> Emitter" where
  "Emitter_of this n =
     new_Emitter (Emitter.snsClient this) (Emitter.topicArn this)
       (Some ((if first_char n \<noteq> Some (CHR ''/'') then ''/'' else '''') @ n))"

definition Emitter_emit ::
  "env \<Rightarrow> Emitter \<Rightarrow> string \<Rightarrow> js list \<Rightarrow> state \<Rightarrow> (exn + bool) \<times> state" where
  "Emitter_emit env this ev args s =
     (let (b, s1) = new_BroadcastOperator (Emitter.snsClient this)
                      (Emitter.broadcastOptions this) s
      in BroadcastOperator_emit env b ev args s1)"

definition Emitter_to :: "Emitter \<Rightarrow> room_arg \<Rightarrow> state \<Rightarrow> BroadcastOperator \<times> state" where
  "Emitter_to this room s =
     (let (b, s1) = new_BroadcastOperator (Emitter.snsClient this)
                      (Emitter.broadcastOptions this) s
      in BroadcastOperator_to b room s1)"

definition Emitter_in :: "Emitter \<Rightarrow> room_arg \<Rightarrow> state \<Rightarrow> BroadcastOperator \<times> state" where
  "Emitter_in this room s =
     (let (b, s1) = new_BroadcastOperator (Emitter.snsClient this)
                      (Emitter.broadcastOptions this) s
      in BroadcastOperator_in b room s1)"

definition Emitter_except :: "Emitter \<Rightarrow> room_arg \<Rightarrow> state \<Rightarrow> BroadcastOperator \<times> state" where
  "Emitter_except this room s =
     (let (b, s1) = new_BroadcastOperator (Emitter.snsClient this)
                      (Emitter.broadcastOptions this) s
      in BroadcastOperator_except b room s1)"

definition Emitter_volatile :: "Emitter \<Rightarrow> state \<Rightarrow> BroadcastOperator \<times> state" where
  "Emitter_volatile this s =
     (let (b, s1) = new_BroadcastOperator (Emitter.snsClient this)
                      (Emitter.broadcastOptions this) s
      in BroadcastOperator_volatile b s1)"

definition Emitter_compress :: "Emitter \<Rightarrow> bool \<Rightarrow> state \<Rightarrow> BroadcastOperator \<times> state" where
  "Emitter_compress this compress s =
     (let (b, s1) = new_BroadcastOperator (Emitter.snsClient this)
                      (Emitter.broadcastOptions this) s
      in BroadcastOperator_compress b compress s1)"

definition Emitter_socketsJoin ::
  "env \<Rightarrow> Emitter \<Rightarrow> room_arg \<Rightarrow> state \<Rightarrow> (exn + unit) \<times> state" where
  "Emitter_socketsJoin env this rooms_arg s =
     (let (b, s1) = new_BroadcastOperator (Emitter.snsClient this)
                      (Emitter.broadcastOptions this) s
      in BroadcastOperator_socketsJoin env b rooms_arg s1)"

definition Emitter_socketsLeave ::
  "env \<Rightarrow> Emitter \<Rightarrow> room_arg \<Rightarrow> state \<Rightarrow> (exn + unit) \<times> state" where
  "Emitter_socketsLeave env this rooms_arg s =
     (let (b, s1) = new_BroadcastOperator (Emitter.snsClient this)
                      (Emitter.broadcastOptions this) s
      in BroadcastOperator_socketsLeave env b rooms_arg s1)"

text \<open>\<open>None\<close> is the omitted argument, whose default is \<^verbatim>\<open>false\<close>.\<close>

definition Emitter_disconnectSockets ::
  "env \<Rightarrow> Emitter \<Rightarrow> bool option \<Rightarrow> state \<Rightarrow> (exn + unit) \<times> state" where
  "Emitter_disconnectSockets env this close_arg s =
     (let close = (case close_arg of None \<Rightarrow> False | Some c \<Rightarrow> c);
          (b, s1) = new_BroadcastOperator (Emitter.snsClient this)
                      (Emitter.broadcastOptions this) s
      in BroadcastOperator_disconnectSockets env b close s1)"

definition Emitter_serverSideEmit ::
  "env \<Rightarrow> Emitter \<Rightarrow> js list \<Rightarrow> state \<Rightarrow> (exn + unit) \<times> state" where
  "Emitter_serverSideEmit env this args s =
     (let withAck = (typeof (index args (int (length args) - 1)) = ''function'')
      in if withAck then (Inl (Error ''Acknowledgements are not supported''), s)
         else (Inr (),
               publish env (Emitter.snsClient this)
                 (BroadcastOptions.topicArn (Emitter.broadcastOptions this))
                 (MessageType.SERVER_SIDE_EMIT (MessageType env))
                 (BroadcastOptions.nsp (Emitter.broadcastOptions this)) UID
                 (JObj [(''packet'', JArr args)]) s))"

subsection \<open>Concrete inputs for the examples\<close>

text \<open>The state before anything was allocated, encoded, sent or logged.\<close>

definition init :: state where
  "init = \<lparr>Sets = (\<lambda>r. []), Objects = (\<lambda>r. []), next_ref = 0, encoded = [], sent = [],
           console = []\<rparr>"

text \<open>Three clients: one whose sends succeed, one whose sends are rejected, one that throws.\<close>

definition ok_client :: SNS where
  "ok_client = \<lparr>send = (\<lambda>c. Resolved)\<rparr>"

definition rejecting_client :: SNS where
  "rejecting_client = \<lparr>send = (\<lambda>c. Rejected (Error ''rejected''))\<rparr>"

definition throwing_client :: SNS where
  "throwing_client = \<lparr>send = (\<lambda>c. Thrown (Error ''thrown''))\<rparr>"

text \<open>An emitter on the default namespace, and a target it gives for one room.\<close>

definition example_emitter :: Emitter where
  "example_emitter =
     new_Emitter ok_client ''arn:aws:sns:eu-central-1:000000000000:socket-io'' None"

definition example_target :: "BroadcastOperator \<times> state" where
  "example_target = Emitter_to example_emitter (Room ''room1'') init"

text \<open>The commands handed to the client between two states.\<close>

definition new_commands :: "state \<Rightarrow> state \<Rightarrow> PublishCommand list" where
  "new_commands s s' = drop (length (sent s)) (sent s')"

text \<open>
  When a command was handed to the client between the two states, it was the only one and
  the console grew by exactly the error of its send: nothing when the promise resolved,
  the error when it was rejected or thrown.
\<close>

definition logs_failure :: "SNS \<Rightarrow> state \<Rightarrow> state \<Rightarrow> bool" where
  "logs_failure client s s' \<longleftrightarrow>
     (case new_commands s s' of
        [] \<Rightarrow> True
      | c # cs \<Rightarrow>
          cs = [] \<and>
          console s' = console s @
            (case send client c of Resolved \<Rightarrow> [] | Rejected x \<Rightarrow> [x] | Thrown x \<Rightarrow> [x]))"

text \<open>An emitter whose client rejects every send, and one whose client throws.\<close>

definition rejected_emitter :: Emitter where
  "rejected_emitter = new_Emitter rejecting_client ''arn:aws:sns:eu-central-1:000000000000:socket-io'' None"

definition thrown_emitter :: Emitter where
  "thrown_emitter = new_Emitter throwing_client ''arn:aws:sns:eu-central-1:000000000000:socket-io'' None"

text \<open>An emitter constructed with the empty string as its namespace.\<close>

definition empty_namespace_emitter :: Emitter where
  "empty_namespace_emitter =
     new_Emitter ok_client ''arn:aws:sns:eu-central-1:000000000000:socket-io'' (Some '''')"

text \<open>The target that \<^verbatim>\<open>emitter.volatile\<close> gives, with the state after the call.\<close>

definition volatile_target :: "BroadcastOperator \<times> state" where
  "volatile_target = Emitter_volatile example_emitter init"

text \<open>
  Reading an operator in the state it is returned with: the members of its room set and
  of its exclusion set in insertion order, and its flags object.
\<close>

definition rooms_of :: "BroadcastOperator \<times> state \<Rightarrow> string list" where
  "rooms_of bs = Sets (snd bs) (rooms (fst bs))"

definition exceptRooms_of :: "BroadcastOperator \<times> state \<Rightarrow> string list" where
  "exceptRooms_of bs = Sets (snd bs) (exceptRooms (fst bs))"

definition flags_of :: "BroadcastOperator \<times> state \<Rightarrow> (string \<times> bool) list" where
  "flags_of bs = Objects (snd bs) (flags (fst bs))"

text \<open>A chained call: the method is applied to the operator and the state of the call before.\<close>

definition and_then ::
  "BroadcastOperator \<times> state \<Rightarrow> (BroadcastOperator \<Rightarrow> state \<Rightarrow> 'a \<times> state) \<Rightarrow> 'a \<times> state" where
  "and_then bs f = f (fst bs) (snd bs)"

text \<open>The three objects of an operator were allocated in the state.\<close>

definition allocated :: "state \<Rightarrow> BroadcastOperator \<Rightarrow> bool" where
  "allocated s b \<longleftrightarrow> rooms b < next_ref s \<and> exceptRooms b < next_ref s \<and> flags b < next_ref s"

text \<open>
  The second state differs from the first by new objects only: every object of the first
  state holds what it held, and nothing was encoded, sent or logged.
\<close>

definition only_allocates :: "state \<Rightarrow> state \<Rightarrow> bool" where
  "only_allocates s s' \<longleftrightarrow>
     (\<forall>r < next_ref s. Sets s' r = Sets s r \<and> Objects s' r = Objects s r) \<and>
     next_ref s \<le> next_ref s' \<and>
     encoded s' = encoded s \<and> sent s' = sent s \<and> console s' = console s"

text \<open>The three objects of the receiver hold in the second state what they held in the first.\<close>

definition receiver_unchanged :: "BroadcastOperator \<Rightarrow> state \<Rightarrow> state \<Rightarrow> bool" where
  "receiver_unchanged b s s' \<longleftrightarrow>
     rooms_of (b, s') = rooms_of (b, s) \<and>
     exceptRooms_of (b, s') = exceptRooms_of (b, s) \<and>
     flags_of (b, s') = flags_of (b, s)"


text \<open>
  The attributes \<^verbatim>\<open>nsp\<close> and \<^verbatim>\<open>uid\<close> of a command published for the namespace \<open>n\<close>: \<^verbatim>\<open>nsp\<close> is
  absent when \<open>n\<close> is the empty string and is the string attribute \<open>n\<close> otherwise, \<^verbatim>\<open>uid\<close> is the
  string attribute \<^verbatim>\<open>"emitter"\<close>.
\<close>

definition nsp_uid_attributes :: "string \<Rightarrow> PublishCommand \<Rightarrow> bool" where
  "nsp_uid_attributes n k \<longleftrightarrow>
     MessageAttributes k ''nsp'' =
       (if n = [] then None
        else Some \<lparr>DataType = ''String'', StringValue = Some n, BinaryValue = None\<rparr>) \<and>
     MessageAttributes k ''uid'' =
       Some \<lparr>DataType = ''String'', StringValue = Some ''emitter'', BinaryValue = None\<rparr>"

section \<open>Properties\<close>

subsection \<open>What one call of publish does\<close>

text \<open>
  One call appends the payload to the trace of the codec (when the payload is truthy). When
  the codec throws, its error goes to the console and nothing is sent; otherwise one command
  is handed to the client, and the error of the send goes to the console when it fails.
\<close>

lemma publish_effect:
  "publish env c t ty n u d s =
     (case messageAttributes env n d of
        Inl x \<Rightarrow>
          s\<lparr>encoded := encoded s @ (if truthy d then [d] else []),
            console := console s @ [x]\<rparr>
      | Inr a \<Rightarrow>
          s\<lparr>encoded := encoded s @ (if truthy d then [d] else []),
            sent := sent s @ [\<lparr>TopicArn = t, Message = String_number ty,
                              MessageAttributes = a\<rparr>],
            console := console s @
              (case send c \<lparr>TopicArn = t, Message = String_number ty,
                             MessageAttributes = a\<rparr> of
                 Resolved \<Rightarrow> [] | Rejected e \<Rightarrow> [e] | Thrown e \<Rightarrow> [e])\<rparr>)"
proof (cases "messageAttributes env n d")
  case (Inl x)
  then show ?thesis
    by (simp add: publish_def Let_def)
next
  case (Inr a)
  then show ?thesis
    unfolding publish_def Let_def
    by (cases "send c \<lparr>TopicArn = t, Message = String_number ty, MessageAttributes = a\<rparr>")
      simp_all
qed

lemma publish_store:
  "Sets (publish env c t ty n u d s) = Sets s"
  "Objects (publish env c t ty n u d s) = Objects s"
  "next_ref (publish env c t ty n u d s) = next_ref s"
  by (simp_all add: publish_effect split: sum.split)

lemma publish_encoded:
  "encoded (publish env c t ty n u d s) = encoded s @ (if truthy d then [d] else [])"
  by (simp add: publish_effect split: sum.split)

lemma publish_sent:
  "sent (publish env c t ty n u d s) = sent s @
     (case messageAttributes env n d of
        Inl x \<Rightarrow> []
      | Inr a \<Rightarrow> [\<lparr>TopicArn = t, Message = String_number ty, MessageAttributes = a\<rparr>])"
  by (simp add: publish_effect split: sum.split)

lemma publish_console:
  "console (publish env c t ty n u d s) = console s @
     (case messageAttributes env n d of
        Inl x \<Rightarrow> [x]
      | Inr a \<Rightarrow>
          (case send c \<lparr>TopicArn = t, Message = String_number ty, MessageAttributes = a\<rparr> of
             Resolved \<Rightarrow> [] | Rejected e \<Rightarrow> [e] | Thrown e \<Rightarrow> [e]))"
  by (simp add: publish_effect split: sum.split)

lemma publish_new_commands:
  "sent s0 = sent s \<Longrightarrow> new_commands s0 (publish env c t ty n u d s) =
     (case messageAttributes env n d of
        Inl x \<Rightarrow> []
      | Inr a \<Rightarrow> [\<lparr>TopicArn = t, Message = String_number ty, MessageAttributes = a\<rparr>])"
  by (simp add: new_commands_def publish_sent)

lemma publish_logs_failure:
  "sent s0 = sent s \<Longrightarrow> console s0 = console s \<Longrightarrow>
   logs_failure c s0 (publish env c t ty n u d s)"
  by (simp add: logs_failure_def publish_new_commands publish_console split: sum.split)

lemma messageAttributes_truthy:
  "truthy d \<Longrightarrow> messageAttributes env n d =
     (case encode env d of
        Inl x \<Rightarrow> Inl x
      | Inr bytes \<Rightarrow>
          Inr ((if n = [] then Map.empty
                else [''nsp'' \<mapsto>
                  \<lparr>DataType = ''String'', StringValue = Some n, BinaryValue = None\<rparr>])
               (''uid'' \<mapsto>
                  \<lparr>DataType = ''String'', StringValue = Some ''emitter'', BinaryValue = None\<rparr>,
                ''data'' \<mapsto>
                  \<lparr>DataType = ''Binary'', StringValue = None, BinaryValue = Some bytes\<rparr>)))"
  by (simp add: messageAttributes_def Let_def UID_def split: sum.split)

lemma messageAttributes_nsp:
  "messageAttributes env n d = Inr a \<Longrightarrow>
   a ''nsp'' =
     (if n = [] then None
      else Some \<lparr>DataType = ''String'', StringValue = Some n, BinaryValue = None\<rparr>)"
  by (auto simp add: messageAttributes_def Let_def split: if_splits sum.splits)

lemma messageAttributes_uid:
  "messageAttributes env n d = Inr a \<Longrightarrow>
   a ''uid'' =
     Some \<lparr>DataType = ''String'', StringValue = Some ''emitter'', BinaryValue = None\<rparr>"
  by (auto simp add: messageAttributes_def Let_def UID_def split: if_splits sum.splits)

lemma publish_accepted:
  assumes "truthy d" and "encode env d = Inr bytes"
  shows "sent (publish env c t ty n u d s) = sent s @
      [\<lparr>TopicArn = t, Message = String_number ty,
        MessageAttributes =
          (if n = [] then Map.empty
           else [''nsp'' \<mapsto>
             \<lparr>DataType = ''String'', StringValue = Some n, BinaryValue = None\<rparr>])
          (''uid'' \<mapsto>
             \<lparr>DataType = ''String'', StringValue = Some ''emitter'', BinaryValue = None\<rparr>,
           ''data'' \<mapsto>
             \<lparr>DataType = ''Binary'', StringValue = None, BinaryValue = Some bytes\<rparr>)\<rparr>]"
  using assms by (simp add: publish_sent messageAttributes_truthy)

lemma publish_refused:
  assumes "truthy d" and "encode env d = Inl x"
  shows "sent (publish env c t ty n u d s) = sent s"
    and "console (publish env c t ty n u d s) = console s @ [x]"
  using assms by (simp_all add: publish_sent publish_console messageAttributes_truthy)

lemma new_BroadcastOperator_eq:
  "new_BroadcastOperator c opts s =
     (\<lparr>BroadcastOperator.snsClient = c, BroadcastOperator.broadcastOptions = opts,
       rooms = next_ref s, exceptRooms = Suc (next_ref s), flags = Suc (Suc (next_ref s))\<rparr>,
      s\<lparr>Sets := (Sets s)(next_ref s := [], Suc (next_ref s) := []),
        Objects := (Objects s)(Suc (Suc (next_ref s)) := []),
        next_ref := Suc (Suc (Suc (next_ref s)))\<rparr>)"
  by (simp add: new_BroadcastOperator_def new_Set_def new_Object_def)

lemma reserved_iff:
  "ev \<in> set RESERVED_EVENTS \<longleftrightarrow>
   ev \<in> {''connect'', ''connect_error'', ''disconnect'', ''disconnecting'', ''newListener'',
         ''removeListener''}"
  by (simp add: RESERVED_EVENTS_def)

subsection \<open>Reserved event names\<close>

text \<open>
  Claim C4. For each of the six reserved event names, \<^verbatim>\<open>emit\<close> of an operator and \<^verbatim>\<open>emit\<close>
  of an emitter throw the reserved-name error, and nothing was given to the codec, to the
  client or to the console: the operator leaves the state as it was, the emitter only
  allocated its operator. For every other event name no error is thrown: the call resolves
  to \<^verbatim>\<open>true\<close>.
\<close>

theorem emit_reserved_name:
  "(ev \<in> {''connect'', ''connect_error'', ''disconnect'', ''disconnecting'', ''newListener'',
          ''removeListener''} \<longrightarrow>
      BroadcastOperator_emit env b ev args s =
        (Inl (Error (CHR 0x22 # ev @ CHR 0x22 # '' is a reserved event name'')), s) \<and>
      fst (Emitter_emit env e ev args s) =
        Inl (Error (CHR 0x22 # ev @ CHR 0x22 # '' is a reserved event name'')) \<and>
      encoded (snd (Emitter_emit env e ev args s)) = encoded s \<and>
      sent (snd (Emitter_emit env e ev args s)) = sent s \<and>
      console (snd (Emitter_emit env e ev args s)) = console s) \<and>
   (ev \<notin> {''connect'', ''connect_error'', ''disconnect'', ''disconnecting'', ''newListener'',
          ''removeListener''} \<longrightarrow>
      fst (BroadcastOperator_emit env b ev args s) = Inr True \<and>
      fst (Emitter_emit env e ev args s) = Inr True)"
proof (cases "ev \<in> set RESERVED_EVENTS")
  case True
  moreover from True have "ev \<in> {''connect'', ''connect_error'', ''disconnect'',
      ''disconnecting'', ''newListener'', ''removeListener''}"
    by (simp only: reserved_iff)
  ultimately show ?thesis
    by (simp add: BroadcastOperator_emit_def Emitter_emit_def new_BroadcastOperator_eq)
next
  case False
  moreover from False have "ev \<notin> {''connect'', ''connect_error'', ''disconnect'',
      ''disconnecting'', ''newListener'', ''removeListener''}"
    by (simp add: reserved_iff)
  ultimately show ?thesis
    by (simp add: BroadcastOperator_emit_def Emitter_emit_def new_BroadcastOperator_eq Let_def)
qed

theorem emit_reserved_name_witness:
  "BroadcastOperator_emit adapter_env (fst example_target) ''connect'' [JNum 1]
     (snd example_target) =
     (Inl (Error (CHR 0x22 # ''connect'' @ CHR 0x22 # '' is a reserved event name'')),
      snd example_target) \<and>
   sent (snd (Emitter_emit adapter_env example_emitter ''disconnecting'' [] init)) = [] \<and>
   fst (Emitter_emit adapter_env example_emitter ''hello'' [] init) = Inr True \<and>
   fst (Emitter_emit adapter_env example_emitter ''hello'' [JFun 0] init) = Inr True"
  using emit_reserved_name [of "''connect''" adapter_env "fst example_target" "[JNum 1]"
      "snd example_target" example_emitter]
    emit_reserved_name [of "''disconnecting''" adapter_env "fst example_target" "[]" init
      example_emitter]
    emit_reserved_name [of "''hello''" adapter_env "fst example_target" "[]" init
      example_emitter]
    emit_reserved_name [of "''hello''" adapter_env "fst example_target" "[JFun 0]" init
      example_emitter]
  by (simp add: init_def)

subsection \<open>serverSideEmit\<close>

lemma index_last:
  "index args (int (length args) - 1) = (if args = [] then JUndefined else last args)"
  by (cases args rule: rev_cases) (simp_all add: index_def nth_append)

lemma typeof_function: "typeof v = ''function'' \<longleftrightarrow> (\<exists>f. v = JFun f)"
  by (cases v) simp_all

lemma serverSideEmit_throws:
  "args \<noteq> [] \<Longrightarrow> last args = JFun f \<Longrightarrow>
   Emitter_serverSideEmit env e args s =
     (Inl (Error ''Acknowledgements are not supported''), s)"
  by (simp add: Emitter_serverSideEmit_def index_last)

lemma serverSideEmit_publishes:
  "\<not> (args \<noteq> [] \<and> (\<exists>f. last args = JFun f)) \<Longrightarrow>
   Emitter_serverSideEmit env e args s =
     (Inr (),
      publish env (Emitter.snsClient e) (BroadcastOptions.topicArn (Emitter.broadcastOptions e))
        (MessageType.SERVER_SIDE_EMIT (MessageType env))
        (BroadcastOptions.nsp (Emitter.broadcastOptions e)) UID
        (JObj [(''packet'', JArr args)]) s)"
  by (auto simp add: Emitter_serverSideEmit_def index_last typeof_function)

lemma example_encode_simps:
  "encode adapter_env v = (if could_encode v then Inr [] else Inl (Error ''Could not encode''))"
  by (simp add: adapter_env_def example_encode_def)

text \<open>
  Claim C5, as stated, fails in its last part. \<^verbatim>\<open>serverSideEmit(() => {}, "x")\<close> does not end
  in a function, so it does not throw; but the codec throws on the function in the payload,
  inside the \<^verbatim>\<open>try\<close> of \<^verbatim>\<open>publish\<close>: the error is logged, the call resolves, and no wire message
  reaches the client.
\<close>

theorem serverSideEmit_codec_counterexample:
  "fst (Emitter_serverSideEmit adapter_env example_emitter [JFun 0, JStr ''x''] init) =
     Inr () \<and>
   sent (snd (Emitter_serverSideEmit adapter_env example_emitter [JFun 0, JStr ''x''] init)) =
     [] \<and>
   console (snd (Emitter_serverSideEmit adapter_env example_emitter [JFun 0, JStr ''x''] init)) =
     [Error ''Could not encode'']"
  by (simp add: serverSideEmit_publishes publish_sent publish_console messageAttributes_truthy
      example_encode_simps init_def)

text \<open>
  Claim C5, amended. \<^verbatim>\<open>serverSideEmit\<close> throws \<^verbatim>\<open>Error("Acknowledgements are not supported")\<close>
  if and only if the argument list is not empty and its last element is a function; the
  state is then unchanged, so nothing reached the codec or the client. For every other
  argument list the call resolves, and the one value given to the codec is the object whose
  \<^verbatim>\<open>packet\<close> field is the argument list itself. When the codec returns bytes, exactly one
  command is handed to the client and its \<^verbatim>\<open>data\<close> attribute holds these bytes; when the codec
  throws, nothing is handed to the client and the codec's error is logged.
\<close>

theorem serverSideEmit_acknowledgement:
  "(fst (Emitter_serverSideEmit env e args s) = Inl (Error ''Acknowledgements are not supported'')
      \<longleftrightarrow> args \<noteq> [] \<and> (\<exists>f. last args = JFun f)) \<and>
   (args \<noteq> [] \<and> (\<exists>f. last args = JFun f) \<longrightarrow>
      snd (Emitter_serverSideEmit env e args s) = s) \<and>
   (\<not> (args \<noteq> [] \<and> (\<exists>f. last args = JFun f)) \<longrightarrow>
      fst (Emitter_serverSideEmit env e args s) = Inr () \<and>
      encoded (snd (Emitter_serverSideEmit env e args s)) =
        encoded s @ [JObj [(''packet'', JArr args)]] \<and>
      (encode env (JObj [(''packet'', JArr args)]) = Inr bytes \<longrightarrow>
         length (sent (snd (Emitter_serverSideEmit env e args s))) = Suc (length (sent s)) \<and>
         butlast (sent (snd (Emitter_serverSideEmit env e args s))) = sent s \<and>
         MessageAttributes (last (sent (snd (Emitter_serverSideEmit env e args s)))) ''data'' =
           Some \<lparr>DataType = ''Binary'', StringValue = None, BinaryValue = Some bytes\<rparr>) \<and>
      (encode env (JObj [(''packet'', JArr args)]) = Inl x \<longrightarrow>
         sent (snd (Emitter_serverSideEmit env e args s)) = sent s \<and>
         console (snd (Emitter_serverSideEmit env e args s)) = console s @ [x]))"
proof -
  define ack where "ack \<longleftrightarrow> args \<noteq> [] \<and> (\<exists>f. last args = JFun f)"
  let ?r = "Emitter_serverSideEmit env e args s"
  let ?p = "JObj [(''packet'', JArr args)]"
  have thrown: "?r = (Inl (Error ''Acknowledgements are not supported''), s)" if ack
    using that serverSideEmit_throws unfolding ack_def by blast
  have published: "fst ?r = Inr () \<and> encoded (snd ?r) = encoded s @ [?p] \<and>
      (encode env ?p = Inr bytes \<longrightarrow>
         length (sent (snd ?r)) = Suc (length (sent s)) \<and> butlast (sent (snd ?r)) = sent s \<and>
         MessageAttributes (last (sent (snd ?r))) ''data'' =
           Some \<lparr>DataType = ''Binary'', StringValue = None, BinaryValue = Some bytes\<rparr>) \<and>
      (encode env ?p = Inl x \<longrightarrow>
         sent (snd ?r) = sent s \<and> console (snd ?r) = console s @ [x])" if "\<not> ack"
    using that unfolding ack_def
    by (simp add: serverSideEmit_publishes publish_encoded publish_accepted publish_refused)
  have "(fst ?r = Inl (Error ''Acknowledgements are not supported'') \<longleftrightarrow> ack) \<and>
      (ack \<longrightarrow> snd ?r = s) \<and>
      (\<not> ack \<longrightarrow> fst ?r = Inr () \<and> encoded (snd ?r) = encoded s @ [?p] \<and>
        (encode env ?p = Inr bytes \<longrightarrow>
           length (sent (snd ?r)) = Suc (length (sent s)) \<and> butlast (sent (snd ?r)) = sent s \<and>
           MessageAttributes (last (sent (snd ?r))) ''data'' =
             Some \<lparr>DataType = ''Binary'', StringValue = None, BinaryValue = Some bytes\<rparr>) \<and>
        (encode env ?p = Inl x \<longrightarrow>
           sent (snd ?r) = sent s \<and> console (snd ?r) = console s @ [x]))"
    using thrown published by (cases ack) simp_all
  then show ?thesis
    unfolding ack_def .
qed

theorem serverSideEmit_acknowledgement_witness:
  "fst (Emitter_serverSideEmit adapter_env example_emitter [JStr ''hello'', JFun 0] init) =
     Inl (Error ''Acknowledgements are not supported'') \<and>
   snd (Emitter_serverSideEmit adapter_env example_emitter [JStr ''hello'', JFun 0] init) = init \<and>
   fst (Emitter_serverSideEmit adapter_env example_emitter
          [JStr ''hello'', JStr ''world'', JNum 1, JStr ''2''] init) = Inr () \<and>
   encoded (snd (Emitter_serverSideEmit adapter_env example_emitter
          [JStr ''hello'', JStr ''world'', JNum 1, JStr ''2''] init)) =
     [JObj [(''packet'', JArr [JStr ''hello'', JStr ''world'', JNum 1, JStr ''2''])]] \<and>
   length (sent (snd (Emitter_serverSideEmit adapter_env example_emitter
          [JStr ''hello'', JStr ''world'', JNum 1, JStr ''2''] init))) = 1 \<and>
   MessageAttributes (last (sent (snd (Emitter_serverSideEmit adapter_env example_emitter
          [JStr ''hello'', JStr ''world'', JNum 1, JStr ''2''] init)))) ''data'' =
     Some \<lparr>DataType = ''Binary'', StringValue = None, BinaryValue = Some []\<rparr> \<and>
   fst (Emitter_serverSideEmit adapter_env example_emitter [] init) = Inr () \<and>
   sent (snd (Emitter_serverSideEmit adapter_env example_emitter [JFun 0, JStr ''x''] init)) =
     []"
proof -
  have accepted: "encode adapter_env
      (JObj [(''packet'', JArr [JStr ''hello'', JStr ''world'', JNum 1, JStr ''2''])]) = Inr []"
    by (simp add: example_encode_simps)
  have refused: "encode adapter_env (JObj [(''packet'', JArr [JFun 0, JStr ''x''])]) =
      Inl (Error ''Could not encode'')"
    by (simp add: example_encode_simps)
  show ?thesis
    using serverSideEmit_acknowledgement [of adapter_env example_emitter
        "[JStr ''hello'', JFun 0]" init "[]" "Error ''Could not encode''"]
      serverSideEmit_acknowledgement [of adapter_env example_emitter
        "[JStr ''hello'', JStr ''world'', JNum 1, JStr ''2'']" init "[]"
        "Error ''Could not encode''"]
      serverSideEmit_acknowledgement [of adapter_env example_emitter "[]" init "[]"
        "Error ''Could not encode''"]
      serverSideEmit_acknowledgement [of adapter_env example_emitter "[JFun 0, JStr ''x'']"
        init "[]" "Error ''Could not encode''"]
    by (simp add: accepted refused init_def)
qed

subsection \<open>A failed publish\<close>

lemma operator_actions_resolve:
  "ev \<notin> set RESERVED_EVENTS \<Longrightarrow> fst (BroadcastOperator_emit env b ev args s) = Inr True"
  "fst (BroadcastOperator_socketsJoin env b r s) = Inr ()"
  "fst (BroadcastOperator_socketsLeave env b r s) = Inr ()"
  "fst (BroadcastOperator_disconnectSockets env b close s) = Inr ()"
  by (simp_all add: BroadcastOperator_emit_def BroadcastOperator_socketsJoin_def
      BroadcastOperator_socketsLeave_def BroadcastOperator_disconnectSockets_def Let_def)

lemma operator_actions_log:
  assumes "sent s0 = sent s" and "console s0 = console s"
    and "c = BroadcastOperator.snsClient b"
  shows "ev \<notin> set RESERVED_EVENTS \<Longrightarrow>
      logs_failure c s0 (snd (BroadcastOperator_emit env b ev args s))"
    and "logs_failure c s0 (snd (BroadcastOperator_socketsJoin env b r s))"
    and "logs_failure c s0 (snd (BroadcastOperator_socketsLeave env b r s))"
    and "logs_failure c s0 (snd (BroadcastOperator_disconnectSockets env b close s))"
  using assms
  by (simp_all add: BroadcastOperator_emit_def BroadcastOperator_socketsJoin_def
      BroadcastOperator_socketsLeave_def BroadcastOperator_disconnectSockets_def Let_def
      publish_logs_failure)

lemma emitter_actions_resolve:
  "ev \<notin> set RESERVED_EVENTS \<Longrightarrow> fst (Emitter_emit env e ev args s) = Inr True"
  "fst (Emitter_socketsJoin env e r s) = Inr ()"
  "fst (Emitter_socketsLeave env e r s) = Inr ()"
  "fst (Emitter_disconnectSockets env e close_arg s) = Inr ()"
  by (simp_all add: Emitter_emit_def Emitter_socketsJoin_def Emitter_socketsLeave_def
      Emitter_disconnectSockets_def new_BroadcastOperator_eq operator_actions_resolve Let_def)

lemma emitter_actions_log:
  "ev \<notin> set RESERVED_EVENTS \<Longrightarrow>
     logs_failure (Emitter.snsClient e) s (snd (Emitter_emit env e ev args s))"
  "logs_failure (Emitter.snsClient e) s (snd (Emitter_socketsJoin env e r s))"
  "logs_failure (Emitter.snsClient e) s (snd (Emitter_socketsLeave env e r s))"
  "logs_failure (Emitter.snsClient e) s (snd (Emitter_disconnectSockets env e close_arg s))"
  by (simp_all add: Emitter_emit_def Emitter_socketsJoin_def Emitter_socketsLeave_def
      Emitter_disconnectSockets_def new_BroadcastOperator_eq Let_def operator_actions_log)

lemma serverSideEmit_log:
  "\<not> (args \<noteq> [] \<and> (\<exists>f. last args = JFun f)) \<Longrightarrow>
   fst (Emitter_serverSideEmit env e args s) = Inr () \<and>
   logs_failure (Emitter.snsClient e) s (snd (Emitter_serverSideEmit env e args s))"
  by (simp add: serverSideEmit_publishes publish_logs_failure)

text \<open>
  Claim C3. Whatever the client does with a command (the promise resolves, the promise
  rejects, or \<^verbatim>\<open>send\<close> throws), every action that reaches \<^verbatim>\<open>publish\<close> resolves: \<^verbatim>\<open>emit\<close> with
  a name that is not reserved resolves to \<^verbatim>\<open>true\<close>, and \<^verbatim>\<open>socketsJoin\<close>, \<^verbatim>\<open>socketsLeave\<close>,
  \<^verbatim>\<open>disconnectSockets\<close> and \<^verbatim>\<open>serverSideEmit\<close> (without a trailing function) resolve. When the
  action handed a command to the client, the error of a failed send is not returned: it is
  appended to the console, and nothing else is.
\<close>

theorem publish_failure_swallowed:
  "(ev \<notin> set RESERVED_EVENTS \<longrightarrow>
      fst (BroadcastOperator_emit env b ev args s) = Inr True \<and>
      logs_failure (BroadcastOperator.snsClient b) s
        (snd (BroadcastOperator_emit env b ev args s)) \<and>
      fst (Emitter_emit env e ev args s) = Inr True \<and>
      logs_failure (Emitter.snsClient e) s (snd (Emitter_emit env e ev args s))) \<and>
   fst (BroadcastOperator_socketsJoin env b r s) = Inr () \<and>
   logs_failure (BroadcastOperator.snsClient b) s
     (snd (BroadcastOperator_socketsJoin env b r s)) \<and>
   fst (BroadcastOperator_socketsLeave env b r s) = Inr () \<and>
   logs_failure (BroadcastOperator.snsClient b) s
     (snd (BroadcastOperator_socketsLeave env b r s)) \<and>
   fst (BroadcastOperator_disconnectSockets env b close s) = Inr () \<and>
   logs_failure (BroadcastOperator.snsClient b) s
     (snd (BroadcastOperator_disconnectSockets env b close s)) \<and>
   fst (Emitter_socketsJoin env e r s) = Inr () \<and>
   logs_failure (Emitter.snsClient e) s (snd (Emitter_socketsJoin env e r s)) \<and>
   fst (Emitter_socketsLeave env e r s) = Inr () \<and>
   logs_failure (Emitter.snsClient e) s (snd (Emitter_socketsLeave env e r s)) \<and>
   fst (Emitter_disconnectSockets env e close_arg s) = Inr () \<and>
   logs_failure (Emitter.snsClient e) s (snd (Emitter_disconnectSockets env e close_arg s)) \<and>
   (\<not> (args \<noteq> [] \<and> (\<exists>f. last args = JFun f)) \<longrightarrow>
      fst (Emitter_serverSideEmit env e args s) = Inr () \<and>
      logs_failure (Emitter.snsClient e) s (snd (Emitter_serverSideEmit env e args s)))"
  using serverSideEmit_log [of args env e s]
  by (simp add: operator_actions_resolve operator_actions_log emitter_actions_resolve
      emitter_actions_log)

lemma init_traces: "encoded init = []" "sent init = []" "console init = []"
  by (simp_all add: init_def)

lemma example_emitters:
  "Emitter.snsClient rejected_emitter = rejecting_client"
  "Emitter.snsClient thrown_emitter = throwing_client"
  "Emitter.snsClient example_emitter = ok_client"
  by (simp_all add: rejected_emitter_def thrown_emitter_def example_emitter_def new_Emitter_def
      Let_def)

theorem publish_failure_swallowed_witness:
  "fst (Emitter_emit adapter_env rejected_emitter ''hello'' [JStr ''world''] init) = Inr True \<and>
   length (sent (snd (Emitter_emit adapter_env rejected_emitter ''hello'' [JStr ''world'']
     init))) = 1 \<and>
   console (snd (Emitter_emit adapter_env rejected_emitter ''hello'' [JStr ''world''] init)) =
     [Error ''rejected''] \<and>
   fst (Emitter_socketsJoin adapter_env thrown_emitter (Room ''room1'') init) = Inr () \<and>
   console (snd (Emitter_socketsJoin adapter_env thrown_emitter (Room ''room1'') init)) =
     [Error ''thrown''] \<and>
   fst (Emitter_serverSideEmit adapter_env rejected_emitter [JStr ''hello''] init) = Inr () \<and>
   console (snd (Emitter_serverSideEmit adapter_env rejected_emitter [JStr ''hello''] init)) =
     [Error ''rejected''] \<and>
   console (snd (Emitter_disconnectSockets adapter_env example_emitter None init)) = []"
proof -
  have reserved: "''hello'' \<notin> set RESERVED_EVENTS"
    by (simp add: RESERVED_EVENTS_def)
  have emit: "new_commands init (snd (Emitter_emit adapter_env rejected_emitter ''hello''
      [JStr ''world''] init)) =
      [last (sent (snd (Emitter_emit adapter_env rejected_emitter ''hello'' [JStr ''world'']
        init)))]"
    by (simp add: Emitter_emit_def new_BroadcastOperator_eq BroadcastOperator_emit_def reserved
        Let_def publish_new_commands publish_sent messageAttributes_truthy
        example_encode_simps spread_def flags_value_def init_def)
  have join: "new_commands init (snd (Emitter_socketsJoin adapter_env thrown_emitter
      (Room ''room1'') init)) =
      [last (sent (snd (Emitter_socketsJoin adapter_env thrown_emitter (Room ''room1'')
        init)))]"
    by (simp add: Emitter_socketsJoin_def new_BroadcastOperator_eq
        BroadcastOperator_socketsJoin_def publish_new_commands publish_sent
        messageAttributes_truthy example_encode_simps spread_def room_list_def init_def)
  have server: "new_commands init (snd (Emitter_serverSideEmit adapter_env rejected_emitter
      [JStr ''hello''] init)) =
      [last (sent (snd (Emitter_serverSideEmit adapter_env rejected_emitter [JStr ''hello'']
        init)))]"
    by (simp add: serverSideEmit_publishes publish_new_commands publish_sent
        messageAttributes_truthy example_encode_simps)
  have disconnect: "new_commands init (snd (Emitter_disconnectSockets adapter_env
      example_emitter None init)) =
      [last (sent (snd (Emitter_disconnectSockets adapter_env example_emitter None init)))]"
    by (simp add: Emitter_disconnectSockets_def new_BroadcastOperator_eq
        BroadcastOperator_disconnectSockets_def publish_new_commands publish_sent
        messageAttributes_truthy example_encode_simps spread_def init_def)
  have one: "length (sent (snd (Emitter_emit adapter_env rejected_emitter ''hello''
      [JStr ''world''] init))) = 1"
  proof -
    from emit have "length (new_commands init (snd (Emitter_emit adapter_env rejected_emitter
        ''hello'' [JStr ''world''] init))) = length [last (sent (snd (Emitter_emit adapter_env
        rejected_emitter ''hello'' [JStr ''world''] init)))]"
      by (rule arg_cong)
    then show ?thesis
      by (simp add: new_commands_def init_def)
  qed
  show ?thesis
    using publish_failure_swallowed [of "''hello''" adapter_env "fst example_target"
        "[JStr ''world'']" init rejected_emitter "Room ''room1''" False None]
      publish_failure_swallowed [of "''hello''" adapter_env "fst example_target"
        "[JStr ''hello'']" init thrown_emitter "Room ''room1''" False None]
      publish_failure_swallowed [of "''hello''" adapter_env "fst example_target"
        "[JStr ''hello'']" init rejected_emitter "Room ''room1''" False None]
      publish_failure_swallowed [of "''hello''" adapter_env "fst example_target"
        "[JStr ''hello'']" init example_emitter "Room ''room1''" False None]
    by (simp add: reserved one logs_failure_def emit join server disconnect example_emitters
        rejecting_client_def throwing_client_def ok_client_def init_traces)
qed

subsection \<open>The type discriminator\<close>





lemma adapter_env_types:
  "BROADCAST (MessageType adapter_env) = 3"
  "SOCKETS_JOIN (MessageType adapter_env) = 4"
  "SOCKETS_LEAVE (MessageType adapter_env) = 5"
  "DISCONNECT_SOCKETS (MessageType adapter_env) = 6"
  "MessageType.SERVER_SIDE_EMIT (MessageType adapter_env) = 9"
  "PacketType_EVENT adapter_env = 2"
  by (simp_all add: adapter_env_def adapter_MessageType_def)

lemma String_number_digits:
  "String_number 3 = ''3''" "String_number 4 = ''4''" "String_number 5 = ''5''"
  "String_number 6 = ''6''" "String_number 9 = ''9''"
  by (simp_all add: String_number.simps digit_def)






subsection \<open>Namespaces\<close>

lemma first_char_of:
  "first_char ((if first_char p \<noteq> Some (CHR ''/'') then ''/'' else '''') @ p) = Some (CHR ''/'')"
  by (cases p) (simp_all add: first_char_def)

lemma new_Emitter_eq:
  "new_Emitter c t a =
     \<lparr>Emitter.snsClient = c, topicArn = t, nsp = (case a of None \<Rightarrow> ''/'' | Some p \<Rightarrow> p),
      broadcastOptions =
        \<lparr>BroadcastOptions.nsp = (case a of None \<Rightarrow> ''/'' | Some p \<Rightarrow> p),
         BroadcastOptions.topicArn = t\<rparr>\<rparr>"
  by (simp add: new_Emitter_def Let_def)

text \<open>
  Claim C7, as stated, fails: not every emitter has a namespace that starts with
  \<^verbatim>\<open>"/"\<close>. The constructor stores the namespace it is given: \<^verbatim>\<open>new Emitter(client, arn,
  "custom")\<close> has the namespace \<^verbatim>\<open>"custom"\<close>, and \<^verbatim>\<open>new Emitter(client, arn, "")\<close> has the empty
  namespace.
\<close>

theorem constructor_namespace_counterexample:
  "Emitter.nsp (new_Emitter ok_client ''arn:aws:sns:eu-central-1:000000000000:socket-io''
      (Some ''custom'')) = ''custom'' \<and>
   first_char (Emitter.nsp (new_Emitter ok_client
      ''arn:aws:sns:eu-central-1:000000000000:socket-io'' (Some ''custom''))) = Some (CHR ''c'') \<and>
   first_char (Emitter.nsp empty_namespace_emitter) = None"
  by (simp add: new_Emitter_eq first_char_def empty_namespace_emitter_def)

text \<open>
  Claim C7, amended. The default namespace is \<^verbatim>\<open>"/"\<close>, the constructor keeps a given
  namespace as it is, and for every string \<open>p\<close> the emitter \<^verbatim>\<open>of(p)\<close> has a namespace that
  starts with \<^verbatim>\<open>"/"\<close>: it is \<open>p\<close> when \<open>p\<close> starts with \<^verbatim>\<open>"/"\<close> and \<^verbatim>\<open>"/"\<close> followed by
  \<open>p\<close> otherwise. The new emitter has the client and the topic of the receiver, and its
  broadcast options carry the new namespace. \<^verbatim>\<open>of("custom")\<close> and \<^verbatim>\<open>of("/custom")\<close> are the same
  emitter, with the namespace \<^verbatim>\<open>"/custom"\<close>. The receiver is a value that \<^verbatim>\<open>of\<close> only
  reads.
\<close>

theorem of_namespace:
  "Emitter.nsp (new_Emitter c t None) = ''/'' \<and>
   Emitter.nsp (new_Emitter c t (Some p)) = p \<and>
   first_char (Emitter.nsp (Emitter_of e p)) = Some (CHR ''/'') \<and>
   Emitter.nsp (Emitter_of e p) = (if first_char p = Some (CHR ''/'') then p else CHR ''/'' # p) \<and>
   BroadcastOptions.nsp (Emitter.broadcastOptions (Emitter_of e p)) =
     Emitter.nsp (Emitter_of e p) \<and>
   Emitter.snsClient (Emitter_of e p) = Emitter.snsClient e \<and>
   Emitter.topicArn (Emitter_of e p) = Emitter.topicArn e \<and>
   BroadcastOptions.topicArn (Emitter.broadcastOptions (Emitter_of e p)) = Emitter.topicArn e \<and>
   Emitter.nsp (Emitter_of e ''custom'') = ''/custom'' \<and>
   Emitter.nsp (Emitter_of e ''/custom'') = ''/custom'' \<and>
   Emitter_of e ''custom'' = Emitter_of e ''/custom'' \<and>
   Emitter.nsp (Emitter_of e '''') = ''/''"
  using first_char_of [of p]
  by (simp add: Emitter_of_def new_Emitter_eq first_char_def)

theorem of_namespace_witness:
  "Emitter.nsp example_emitter = ''/'' \<and>
   Emitter.nsp (Emitter_of example_emitter ''custom'') = ''/custom'' \<and>
   Emitter.nsp (Emitter_of (Emitter_of example_emitter ''custom'') ''/admin'') = ''/admin'' \<and>
   Emitter.nsp (Emitter_of example_emitter ''custom'') =
     Emitter.nsp (Emitter_of example_emitter ''/custom'') \<and>
   Emitter.snsClient (Emitter_of example_emitter ''custom'') = ok_client"
  using of_namespace [of ok_client "''arn:aws:sns:eu-central-1:000000000000:socket-io''"
      "''custom''" example_emitter]
    of_namespace [of ok_client "''arn:aws:sns:eu-central-1:000000000000:socket-io''"
      "''/admin''" "Emitter_of example_emitter ''custom''"]
  by (simp add: example_emitter_def first_char_def new_Emitter_eq Emitter_of_def)


subsection \<open>The selectors as equations\<close>

lemma fold_add:
  "fold (\<lambda>r. add ref r) rs s = s\<lparr>Sets := (Sets s)(ref := fold Set_add rs (Sets s ref))\<rparr>"
  by (induction rs arbitrary: s) (simp_all add: add_def)

lemma BroadcastOperator_to_eq:
  "BroadcastOperator_to b room s =
     (b\<lparr>rooms := next_ref s\<rparr>,
      s\<lparr>Sets := (Sets s)
          (next_ref s := fold Set_add (room_list room) (fold Set_add (Sets s (rooms b)) [])),
        next_ref := Suc (next_ref s)\<rparr>)"
  by (cases room) (simp_all add: BroadcastOperator_to_def new_Set_def fold_add add_def room_list_def)

lemma BroadcastOperator_except_eq:
  "BroadcastOperator_except b room s =
     (b\<lparr>exceptRooms := next_ref s\<rparr>,
      s\<lparr>Sets := (Sets s)
          (next_ref s :=
             fold Set_add (room_list room) (fold Set_add (Sets s (exceptRooms b)) [])),
        next_ref := Suc (next_ref s)\<rparr>)"
  by (cases room)
    (simp_all add: BroadcastOperator_except_def new_Set_def fold_add add_def room_list_def)

lemma BroadcastOperator_compress_eq:
  "BroadcastOperator_compress b compress s =
     (b\<lparr>flags := next_ref s\<rparr>,
      s\<lparr>Objects := (Objects s)
          (next_ref s :=
             AList.update ''compress'' compress
               (fold (\<lambda>(k, v). AList.update k v)
                  (if flags b = next_ref s then [] else Objects s (flags b)) [])),
        next_ref := Suc (next_ref s)\<rparr>)"
  by (simp add: BroadcastOperator_compress_def new_Object_def Object_assign_def)

lemma BroadcastOperator_volatile_eq:
  "BroadcastOperator_volatile b s =
     (b\<lparr>flags := next_ref s\<rparr>,
      s\<lparr>Objects := (Objects s)
          (next_ref s :=
             AList.update ''volatile'' True
               (fold (\<lambda>(k, v). AList.update k v)
                  (if flags b = next_ref s then [] else Objects s (flags b)) [])),
        next_ref := Suc (next_ref s)\<rparr>)"
  by (simp add: BroadcastOperator_volatile_def new_Object_def Object_assign_def)


subsection \<open>The example targets\<close>

lemma example_target_eq:
  "example_target =
     (\<lparr>BroadcastOperator.snsClient = ok_client,
       BroadcastOperator.broadcastOptions =
         \<lparr>BroadcastOptions.nsp = ''/'',
          BroadcastOptions.topicArn = ''arn:aws:sns:eu-central-1:000000000000:socket-io''\<rparr>,
       rooms = 3, exceptRooms = 1, flags = 2\<rparr>,
      init\<lparr>Sets := (\<lambda>r. [])(3 := [''room1'']), next_ref := 4\<rparr>)"
  by (simp add: example_target_def Emitter_to_def new_BroadcastOperator_eq
      BroadcastOperator_to_eq example_emitter_def new_Emitter_eq init_def
      fun_eq_iff numeral_eq_Suc room_list_def Set_add_def)

lemma volatile_target_eq:
  "volatile_target =
     (\<lparr>BroadcastOperator.snsClient = ok_client,
       BroadcastOperator.broadcastOptions =
         \<lparr>BroadcastOptions.nsp = ''/'',
          BroadcastOptions.topicArn = ''arn:aws:sns:eu-central-1:000000000000:socket-io''\<rparr>,
       rooms = 0, exceptRooms = 1, flags = 3\<rparr>,
      init\<lparr>Objects := (\<lambda>r. [])(3 := [(''volatile'', True)]), next_ref := 4\<rparr>)"
  by (simp add: volatile_target_def Emitter_volatile_def new_BroadcastOperator_eq
      BroadcastOperator_volatile_eq example_emitter_def new_Emitter_eq init_def
      fun_eq_iff numeral_eq_Suc)

subsection \<open>Rooms and excluded rooms accumulate\<close>

lemma set_fold_Set_add: "set (fold Set_add xs ys) = set ys \<union> set xs"
  by (induction xs arbitrary: ys) (auto simp add: Set_add_def)

lemma distinct_fold_Set_add: "distinct ys \<Longrightarrow> distinct (fold Set_add xs ys)"
  by (induction xs arbitrary: ys) (simp_all add: Set_add_def)

lemma fold_Set_add_members: "set xs \<subseteq> set ys \<Longrightarrow> fold Set_add xs ys = ys"
  by (induction xs arbitrary: ys) (simp_all add: Set_add_def)

lemma fold_Set_add_append: "distinct (ys @ xs) \<Longrightarrow> fold Set_add xs ys = ys @ xs"
  by (induction xs arbitrary: ys) (simp_all add: Set_add_def)

lemma fold_Set_add_copy: "distinct xs \<Longrightarrow> fold Set_add xs [] = xs"
  using fold_Set_add_append [of "[]" xs] by simp

lemma rooms_of_pair:
  "rooms_of (b, s) = Sets s (rooms b)"
  "exceptRooms_of (b, s) = Sets s (exceptRooms b)"
  "flags_of (b, s) = Objects s (flags b)"
  by (simp_all add: rooms_of_def exceptRooms_of_def flags_of_def)

lemma to_rooms_of:
  "rooms_of (BroadcastOperator_to b r s) =
     fold Set_add (room_list r) (fold Set_add (Sets s (rooms b)) [])"
  by (simp add: rooms_of_def BroadcastOperator_to_eq)

lemma except_exceptRooms_of:
  "exceptRooms_of (BroadcastOperator_except b r s) =
     fold Set_add (room_list r) (fold Set_add (Sets s (exceptRooms b)) [])"
  by (simp add: exceptRooms_of_def BroadcastOperator_except_eq)

lemma distinct_rooms_of:
  "distinct (rooms_of (BroadcastOperator_to b r s))"
  "distinct (exceptRooms_of (BroadcastOperator_except b r s))"
  by (simp_all add: to_rooms_of except_exceptRooms_of distinct_fold_Set_add)

lemma set_room_list: "set (room_list r) = (case r of Rooms rs \<Rightarrow> set rs | Room x \<Rightarrow> {x})"
  by (cases r) (simp_all add: room_list_def)

lemma to_twice:
  "rooms_of (and_then (BroadcastOperator_to b r s) (\<lambda>b'. BroadcastOperator_to b' r)) =
     rooms_of (BroadcastOperator_to b r s)"
proof -
  let ?once = "fold Set_add (room_list r) (fold Set_add (Sets s (rooms b)) [])"
  have "rooms_of (and_then (BroadcastOperator_to b r s) (\<lambda>b'. BroadcastOperator_to b' r)) =
      fold Set_add (room_list r) (fold Set_add ?once [])"
    by (simp add: and_then_def rooms_of_def BroadcastOperator_to_eq)
  also have "fold Set_add ?once [] = ?once"
    by (simp add: fold_Set_add_copy distinct_fold_Set_add)
  also have "fold Set_add (room_list r) ?once = ?once"
    by (rule fold_Set_add_members) (simp add: set_fold_Set_add)
  finally show ?thesis
    by (simp add: to_rooms_of)
qed

lemma except_twice:
  "exceptRooms_of
     (and_then (BroadcastOperator_except b r s) (\<lambda>b'. BroadcastOperator_except b' r)) =
     exceptRooms_of (BroadcastOperator_except b r s)"
proof -
  let ?once = "fold Set_add (room_list r) (fold Set_add (Sets s (exceptRooms b)) [])"
  have "exceptRooms_of
      (and_then (BroadcastOperator_except b r s) (\<lambda>b'. BroadcastOperator_except b' r)) =
      fold Set_add (room_list r) (fold Set_add ?once [])"
    by (simp add: and_then_def exceptRooms_of_def BroadcastOperator_except_eq)
  also have "fold Set_add ?once [] = ?once"
    by (simp add: fold_Set_add_copy distinct_fold_Set_add)
  also have "fold Set_add (room_list r) ?once = ?once"
    by (rule fold_Set_add_members) (simp add: set_fold_Set_add)
  finally show ?thesis
    by (simp add: except_exceptRooms_of)
qed

lemma to_then_to:
  "set (rooms_of (and_then (BroadcastOperator_to b r s) (\<lambda>b'. BroadcastOperator_to b' q))) =
     set (Sets s (rooms b)) \<union> set (room_list r) \<union> set (room_list q)"
  by (simp add: and_then_def rooms_of_def BroadcastOperator_to_eq set_fold_Set_add)

lemma except_then_except:
  "set (exceptRooms_of
     (and_then (BroadcastOperator_except b r s) (\<lambda>b'. BroadcastOperator_except b' q))) =
     set (Sets s (exceptRooms b)) \<union> set (room_list r) \<union> set (room_list q)"
  by (simp add: and_then_def exceptRooms_of_def BroadcastOperator_except_eq
      set_fold_Set_add)

lemma emitter_to_rooms_of:
  "rooms_of (Emitter_to e r s) = fold Set_add (room_list r) []"
  "rooms_of (Emitter_in e r s) = fold Set_add (room_list r) []"
  "exceptRooms_of (Emitter_except e r s) = fold Set_add (room_list r) []"
  by (simp_all add: Emitter_to_def Emitter_in_def Emitter_except_def BroadcastOperator_in_def
      new_BroadcastOperator_eq rooms_of_def exceptRooms_of_def BroadcastOperator_to_eq
      BroadcastOperator_except_eq)

lemma emitter_to_then_to:
  "set (rooms_of (and_then (Emitter_to e r s) (\<lambda>b'. BroadcastOperator_to b' q))) =
     set (room_list r) \<union> set (room_list q)"
  by (simp add: Emitter_to_def new_BroadcastOperator_eq to_then_to)

lemma single_room:
  "BroadcastOperator_to b (Room x) s = BroadcastOperator_to b (Rooms [x]) s"
  "BroadcastOperator_in b (Room x) s = BroadcastOperator_in b (Rooms [x]) s"
  "BroadcastOperator_except b (Room x) s = BroadcastOperator_except b (Rooms [x]) s"
  by (simp_all add: BroadcastOperator_to_eq BroadcastOperator_in_def
      BroadcastOperator_except_eq room_list_def)

text \<open>
  Claim C9. For every target and every room argument, a single string or a list, the room
  set of the target that \<^verbatim>\<open>to\<close> (or \<^verbatim>\<open>in\<close>) returns is the union of the receiver's room set
  with the given rooms, and \<^verbatim>\<open>except\<close> does the same for the exclusion set; on an emitter the
  union is taken with the empty set. The new set has no member twice. Hence a second call
  with the same argument changes nothing (not even the order of the members), a single
  string gives the same result as the list of that one string, two calls give the same set
  in either order, and \<^verbatim>\<open>emitter.to("a").to("b")\<close> and \<^verbatim>\<open>emitter.to("b").to("a")\<close> both have the
  room set \<^verbatim>\<open>{"a", "b"}\<close>.
\<close>

theorem rooms_union:
  "set (rooms_of (BroadcastOperator_to b r s)) =
     set (rooms_of (b, s)) \<union> (case r of Rooms rs \<Rightarrow> set rs | Room x \<Rightarrow> {x}) \<and>
   set (rooms_of (BroadcastOperator_in b r s)) =
     set (rooms_of (b, s)) \<union> (case r of Rooms rs \<Rightarrow> set rs | Room x \<Rightarrow> {x}) \<and>
   set (exceptRooms_of (BroadcastOperator_except b r s)) =
     set (exceptRooms_of (b, s)) \<union> (case r of Rooms rs \<Rightarrow> set rs | Room x \<Rightarrow> {x}) \<and>
   set (rooms_of (Emitter_to e r s)) = (case r of Rooms rs \<Rightarrow> set rs | Room x \<Rightarrow> {x}) \<and>
   set (exceptRooms_of (Emitter_except e r s)) =
     (case r of Rooms rs \<Rightarrow> set rs | Room x \<Rightarrow> {x}) \<and>
   distinct (rooms_of (BroadcastOperator_to b r s)) \<and>
   distinct (exceptRooms_of (BroadcastOperator_except b r s)) \<and>
   rooms_of (and_then (BroadcastOperator_to b r s) (\<lambda>b'. BroadcastOperator_to b' r)) =
     rooms_of (BroadcastOperator_to b r s) \<and>
   exceptRooms_of
     (and_then (BroadcastOperator_except b r s) (\<lambda>b'. BroadcastOperator_except b' r)) =
     exceptRooms_of (BroadcastOperator_except b r s) \<and>
   BroadcastOperator_to b (Room x) s = BroadcastOperator_to b (Rooms [x]) s \<and>
   BroadcastOperator_except b (Room x) s = BroadcastOperator_except b (Rooms [x]) s \<and>
   set (rooms_of (and_then (BroadcastOperator_to b r s) (\<lambda>b'. BroadcastOperator_to b' q))) =
     set (rooms_of (and_then (BroadcastOperator_to b q s) (\<lambda>b'. BroadcastOperator_to b' r))) \<and>
   set (exceptRooms_of
     (and_then (BroadcastOperator_except b r s) (\<lambda>b'. BroadcastOperator_except b' q))) =
     set (exceptRooms_of
       (and_then (BroadcastOperator_except b q s) (\<lambda>b'. BroadcastOperator_except b' r))) \<and>
   set (rooms_of
     (and_then (Emitter_to e (Room ''a'') s) (\<lambda>b'. BroadcastOperator_to b' (Room ''b'')))) =
     {''a'', ''b''} \<and>
   set (rooms_of
     (and_then (Emitter_to e (Room ''b'') s) (\<lambda>b'. BroadcastOperator_to b' (Room ''a'')))) =
     {''a'', ''b''}"
proof -
  have union: "set (rooms_of (BroadcastOperator_to b r s)) =
      set (rooms_of (b, s)) \<union> (case r of Rooms rs \<Rightarrow> set rs | Room x \<Rightarrow> {x})"
    "set (exceptRooms_of (BroadcastOperator_except b r s)) =
      set (exceptRooms_of (b, s)) \<union> (case r of Rooms rs \<Rightarrow> set rs | Room x \<Rightarrow> {x})"
    by (simp_all add: to_rooms_of except_exceptRooms_of set_fold_Set_add set_room_list
        rooms_of_pair)
  have emitter: "set (rooms_of (Emitter_to e r s)) =
      (case r of Rooms rs \<Rightarrow> set rs | Room x \<Rightarrow> {x})"
    "set (exceptRooms_of (Emitter_except e r s)) =
      (case r of Rooms rs \<Rightarrow> set rs | Room x \<Rightarrow> {x})"
    by (simp_all add: emitter_to_rooms_of set_fold_Set_add set_room_list)
  have order: "set (rooms_of
        (and_then (BroadcastOperator_to b r s) (\<lambda>b'. BroadcastOperator_to b' q))) =
      set (rooms_of (and_then (BroadcastOperator_to b q s) (\<lambda>b'. BroadcastOperator_to b' r)))"
    "set (exceptRooms_of
        (and_then (BroadcastOperator_except b r s) (\<lambda>b'. BroadcastOperator_except b' q))) =
      set (exceptRooms_of
        (and_then (BroadcastOperator_except b q s) (\<lambda>b'. BroadcastOperator_except b' r)))"
    by (auto simp add: to_then_to except_then_except)
  have chain: "set (rooms_of
        (and_then (Emitter_to e (Room ''a'') s) (\<lambda>b'. BroadcastOperator_to b' (Room ''b'')))) =
      {''a'', ''b''}"
    "set (rooms_of
        (and_then (Emitter_to e (Room ''b'') s) (\<lambda>b'. BroadcastOperator_to b' (Room ''a'')))) =
      {''a'', ''b''}"
    by (auto simp add: emitter_to_then_to room_list_def)
  show ?thesis
    by (simp only: union emitter order chain BroadcastOperator_in_def distinct_rooms_of
        to_twice except_twice single_room simp_thms)
qed

theorem rooms_union_witness:
  "set (rooms_of (BroadcastOperator_to (fst example_target)
      (Rooms [''room1'', ''room2'', ''room1'']) (snd example_target))) = {''room1'', ''room2''} \<and>
   distinct (rooms_of (BroadcastOperator_to (fst example_target)
      (Rooms [''room1'', ''room2'', ''room1'']) (snd example_target))) \<and>
   set (rooms_of (and_then (Emitter_to example_emitter (Room ''a'') (snd example_target))
      (\<lambda>b'. BroadcastOperator_to b' (Room ''b'')))) = {''a'', ''b''} \<and>
   set (rooms_of (and_then (Emitter_to example_emitter (Room ''b'') (snd example_target))
      (\<lambda>b'. BroadcastOperator_to b' (Room ''a'')))) = {''a'', ''b''}"
proof -
  have before: "rooms_of example_target = [''room1'']"
    by (simp add: example_target_eq rooms_of_pair init_def)
  show ?thesis
    using rooms_union [of "fst example_target" "Rooms [''room1'', ''room2'', ''room1'']"
        "snd example_target" example_emitter "''a''" "Room ''b''"]
    by (simp add: before insert_commute)
qed

subsection \<open>The selectors allocate and never write to an object that exists\<close>

lemma to_frame:
  assumes "allocated s b"
  shows "only_allocates s (snd (BroadcastOperator_to b r s))"
    and "receiver_unchanged b s (snd (BroadcastOperator_to b r s))"
    and "allocated (snd (BroadcastOperator_to b r s)) (fst (BroadcastOperator_to b r s))"
    and "rooms (fst (BroadcastOperator_to b r s)) = next_ref s"
    and "exceptRooms_of (BroadcastOperator_to b r s) = exceptRooms_of (b, s)"
    and "flags_of (BroadcastOperator_to b r s) = flags_of (b, s)"
    and "BroadcastOperator.snsClient (fst (BroadcastOperator_to b r s)) =
      BroadcastOperator.snsClient b"
    and "BroadcastOperator.broadcastOptions (fst (BroadcastOperator_to b r s)) =
      BroadcastOperator.broadcastOptions b"
  using assms
  by (simp_all add: BroadcastOperator_to_eq allocated_def only_allocates_def
      receiver_unchanged_def rooms_of_def exceptRooms_of_def flags_of_def)

lemma except_frame:
  assumes "allocated s b"
  shows "only_allocates s (snd (BroadcastOperator_except b r s))"
    and "receiver_unchanged b s (snd (BroadcastOperator_except b r s))"
    and "allocated (snd (BroadcastOperator_except b r s)) (fst (BroadcastOperator_except b r s))"
    and "exceptRooms (fst (BroadcastOperator_except b r s)) = next_ref s"
    and "rooms_of (BroadcastOperator_except b r s) = rooms_of (b, s)"
    and "flags_of (BroadcastOperator_except b r s) = flags_of (b, s)"
    and "BroadcastOperator.snsClient (fst (BroadcastOperator_except b r s)) =
      BroadcastOperator.snsClient b"
    and "BroadcastOperator.broadcastOptions (fst (BroadcastOperator_except b r s)) =
      BroadcastOperator.broadcastOptions b"
  using assms
  by (simp_all add: BroadcastOperator_except_eq allocated_def only_allocates_def
      receiver_unchanged_def rooms_of_def exceptRooms_of_def flags_of_def)

lemma map_of_update: "map_of (AList.update k v al) k = Some v"
  by (simp add: update_conv')

lemma compress_frame:
  assumes "allocated s b"
  shows "only_allocates s (snd (BroadcastOperator_compress b c s))"
    and "receiver_unchanged b s (snd (BroadcastOperator_compress b c s))"
    and "allocated (snd (BroadcastOperator_compress b c s))
      (fst (BroadcastOperator_compress b c s))"
    and "flags (fst (BroadcastOperator_compress b c s)) = next_ref s"
    and "rooms_of (BroadcastOperator_compress b c s) = rooms_of (b, s)"
    and "exceptRooms_of (BroadcastOperator_compress b c s) = exceptRooms_of (b, s)"
    and "BroadcastOperator.snsClient (fst (BroadcastOperator_compress b c s)) =
      BroadcastOperator.snsClient b"
    and "BroadcastOperator.broadcastOptions (fst (BroadcastOperator_compress b c s)) =
      BroadcastOperator.broadcastOptions b"
    and "map_of (flags_of (BroadcastOperator_compress b c s)) ''compress'' = Some c"
  using assms
  by (simp_all add: BroadcastOperator_compress_eq allocated_def only_allocates_def
      receiver_unchanged_def rooms_of_def exceptRooms_of_def flags_of_def map_of_update)

lemma volatile_frame:
  assumes "allocated s b"
  shows "only_allocates s (snd (BroadcastOperator_volatile b s))"
    and "receiver_unchanged b s (snd (BroadcastOperator_volatile b s))"
    and "allocated (snd (BroadcastOperator_volatile b s)) (fst (BroadcastOperator_volatile b s))"
    and "flags (fst (BroadcastOperator_volatile b s)) = next_ref s"
    and "rooms_of (BroadcastOperator_volatile b s) = rooms_of (b, s)"
    and "exceptRooms_of (BroadcastOperator_volatile b s) = exceptRooms_of (b, s)"
    and "BroadcastOperator.snsClient (fst (BroadcastOperator_volatile b s)) =
      BroadcastOperator.snsClient b"
    and "BroadcastOperator.broadcastOptions (fst (BroadcastOperator_volatile b s)) =
      BroadcastOperator.broadcastOptions b"
    and "map_of (flags_of (BroadcastOperator_volatile b s)) ''volatile'' = Some True"
  using assms
  by (simp_all add: BroadcastOperator_volatile_eq allocated_def only_allocates_def
      receiver_unchanged_def rooms_of_def exceptRooms_of_def flags_of_def map_of_update)

lemma new_BroadcastOperator_allocated:
  "allocated (snd (new_BroadcastOperator c opts s)) (fst (new_BroadcastOperator c opts s))"
  "only_allocates s (snd (new_BroadcastOperator c opts s))"
  by (simp_all add: new_BroadcastOperator_eq allocated_def only_allocates_def)

text \<open>
  Claim C8. Let the three objects of the receiver be allocated, as they are for every
  operator that the constructor or a selector returned. Each selector only allocates: every
  object that existed holds what it held (in particular the room set, the exclusion set and
  the flags of the receiver), and nothing is encoded, sent or logged. \<^verbatim>\<open>to\<close> and \<^verbatim>\<open>in\<close> return
  an operator with a new room set, whose exclusion set and flags are the receiver's;
  \<^verbatim>\<open>except\<close> returns an operator with a new exclusion set, whose room set and flags are the
  receiver's; \<^verbatim>\<open>compress\<close> and \<^verbatim>\<open>volatile\<close> return an operator with a new flags object, in which
  their key is set, and whose room set and exclusion set are the receiver's. The operator
  returned is allocated in the new state.
\<close>

theorem selectors_frame:
  assumes "allocated s b"
  shows "only_allocates s (snd (BroadcastOperator_to b r s)) \<and>
    receiver_unchanged b s (snd (BroadcastOperator_to b r s)) \<and>
    rooms (fst (BroadcastOperator_to b r s)) = next_ref s \<and>
    exceptRooms_of (BroadcastOperator_to b r s) = exceptRooms_of (b, s) \<and>
    flags_of (BroadcastOperator_to b r s) = flags_of (b, s) \<and>
    allocated (snd (BroadcastOperator_to b r s)) (fst (BroadcastOperator_to b r s)) \<and>
    BroadcastOperator_in b r s = BroadcastOperator_to b r s \<and>
    only_allocates s (snd (BroadcastOperator_except b r s)) \<and>
    receiver_unchanged b s (snd (BroadcastOperator_except b r s)) \<and>
    exceptRooms (fst (BroadcastOperator_except b r s)) = next_ref s \<and>
    rooms_of (BroadcastOperator_except b r s) = rooms_of (b, s) \<and>
    flags_of (BroadcastOperator_except b r s) = flags_of (b, s) \<and>
    allocated (snd (BroadcastOperator_except b r s)) (fst (BroadcastOperator_except b r s)) \<and>
    only_allocates s (snd (BroadcastOperator_compress b c s)) \<and>
    receiver_unchanged b s (snd (BroadcastOperator_compress b c s)) \<and>
    flags (fst (BroadcastOperator_compress b c s)) = next_ref s \<and>
    rooms_of (BroadcastOperator_compress b c s) = rooms_of (b, s) \<and>
    exceptRooms_of (BroadcastOperator_compress b c s) = exceptRooms_of (b, s) \<and>
    map_of (flags_of (BroadcastOperator_compress b c s)) ''compress'' = Some c \<and>
    allocated (snd (BroadcastOperator_compress b c s))
      (fst (BroadcastOperator_compress b c s)) \<and>
    only_allocates s (snd (BroadcastOperator_volatile b s)) \<and>
    receiver_unchanged b s (snd (BroadcastOperator_volatile b s)) \<and>
    flags (fst (BroadcastOperator_volatile b s)) = next_ref s \<and>
    rooms_of (BroadcastOperator_volatile b s) = rooms_of (b, s) \<and>
    exceptRooms_of (BroadcastOperator_volatile b s) = exceptRooms_of (b, s) \<and>
    map_of (flags_of (BroadcastOperator_volatile b s)) ''volatile'' = Some True \<and>
    allocated (snd (BroadcastOperator_volatile b s)) (fst (BroadcastOperator_volatile b s)) \<and>
    allocated (snd (new_BroadcastOperator client opts s))
      (fst (new_BroadcastOperator client opts s))"
  by (simp only: to_frame [OF assms] except_frame [OF assms] compress_frame [OF assms]
      volatile_frame [OF assms] BroadcastOperator_in_def new_BroadcastOperator_allocated
      simp_thms)

theorem selectors_frame_witness:
  "allocated (snd example_target) (fst example_target) \<and>
   rooms_of example_target = [''room1''] \<and>
   rooms_of (fst example_target,
     snd (BroadcastOperator_to (fst example_target) (Room ''room2'') (snd example_target))) =
     [''room1''] \<and>
   rooms_of (BroadcastOperator_to (fst example_target) (Room ''room2'') (snd example_target)) =
     [''room1'', ''room2''] \<and>
   rooms_of (BroadcastOperator_except (fst example_target) (Room ''room2'')
     (snd example_target)) = [''room1''] \<and>
   exceptRooms_of (BroadcastOperator_except (fst example_target) (Room ''room2'')
     (snd example_target)) = [''room2''] \<and>
   exceptRooms_of (fst example_target,
     snd (BroadcastOperator_except (fst example_target) (Room ''room2'') (snd example_target))) =
     [] \<and>
   flags_of (fst example_target,
     snd (BroadcastOperator_volatile (fst example_target) (snd example_target))) = [] \<and>
   flags_of (BroadcastOperator_volatile (fst example_target) (snd example_target)) =
     [(''volatile'', True)]"
proof -
  have alloc: "allocated (snd example_target) (fst example_target)"
    by (simp add: example_target_eq allocated_def)
  have before: "rooms_of example_target = [''room1'']" "exceptRooms_of example_target = []"
    "flags_of example_target = []"
    by (simp_all add: example_target_eq rooms_of_def exceptRooms_of_def flags_of_def init_def)
  have after: "rooms_of (BroadcastOperator_to (fst example_target) (Room ''room2'')
      (snd example_target)) = [''room1'', ''room2'']"
    "exceptRooms_of (BroadcastOperator_except (fst example_target) (Room ''room2'')
      (snd example_target)) = [''room2'']"
    "flags_of (BroadcastOperator_volatile (fst example_target) (snd example_target)) =
      [(''volatile'', True)]"
    by (simp_all add: to_rooms_of except_exceptRooms_of flags_of_def
        BroadcastOperator_volatile_eq example_target_eq init_def room_list_def Set_add_def)
  show ?thesis
    using selectors_frame [OF alloc, of "Room ''room2''" True]
    by (simp add: alloc before after receiver_unchanged_def rooms_of_pair)
qed

subsection \<open>The namespace attribute\<close>

lemma selectors_keep_options:
  "BroadcastOperator.broadcastOptions (fst (BroadcastOperator_to b r s)) =
     BroadcastOperator.broadcastOptions b"
  "BroadcastOperator.broadcastOptions (fst (BroadcastOperator_in b r s)) =
     BroadcastOperator.broadcastOptions b"
  "BroadcastOperator.broadcastOptions (fst (BroadcastOperator_except b r s)) =
     BroadcastOperator.broadcastOptions b"
  "BroadcastOperator.broadcastOptions (fst (BroadcastOperator_volatile b s)) =
     BroadcastOperator.broadcastOptions b"
  "BroadcastOperator.broadcastOptions (fst (BroadcastOperator_compress b cp s)) =
     BroadcastOperator.broadcastOptions b"
  by (simp_all add: BroadcastOperator_to_eq BroadcastOperator_in_def BroadcastOperator_except_eq
      BroadcastOperator_volatile_eq BroadcastOperator_compress_eq)

lemma emitter_selectors_options:
  "BroadcastOperator.broadcastOptions (fst (Emitter_to e r s)) = Emitter.broadcastOptions e"
  "BroadcastOperator.broadcastOptions (fst (Emitter_in e r s)) = Emitter.broadcastOptions e"
  "BroadcastOperator.broadcastOptions (fst (Emitter_except e r s)) = Emitter.broadcastOptions e"
  "BroadcastOperator.broadcastOptions (fst (Emitter_volatile e s)) = Emitter.broadcastOptions e"
  "BroadcastOperator.broadcastOptions (fst (Emitter_compress e cp s)) =
     Emitter.broadcastOptions e"
  by (simp_all add: Emitter_to_def Emitter_in_def Emitter_except_def Emitter_volatile_def
      Emitter_compress_def new_BroadcastOperator_eq selectors_keep_options)

lemma publish_attributes:
  assumes "sent s0 = sent s"
  shows "list_all (nsp_uid_attributes n) (new_commands s0 (publish env c t ty n u d s))"
proof (cases "messageAttributes env n d")
  case (Inl x)
  with assms show ?thesis
    by (simp add: publish_new_commands)
next
  case (Inr a)
  with assms show ?thesis
    by (simp add: publish_new_commands nsp_uid_attributes_def messageAttributes_nsp [OF Inr]
        messageAttributes_uid [OF Inr])
qed

lemma operator_actions_attributes:
  assumes "sent s0 = sent s"
    and "n = BroadcastOptions.nsp (BroadcastOperator.broadcastOptions b)"
  shows "ev \<notin> set RESERVED_EVENTS \<Longrightarrow>
      list_all (nsp_uid_attributes n)
        (new_commands s0 (snd (BroadcastOperator_emit env b ev args s)))"
    and "list_all (nsp_uid_attributes n)
        (new_commands s0 (snd (BroadcastOperator_socketsJoin env b r s)))"
    and "list_all (nsp_uid_attributes n)
        (new_commands s0 (snd (BroadcastOperator_socketsLeave env b r s)))"
    and "list_all (nsp_uid_attributes n)
        (new_commands s0 (snd (BroadcastOperator_disconnectSockets env b close s)))"
  using assms
  by (simp_all add: BroadcastOperator_emit_def BroadcastOperator_socketsJoin_def
      BroadcastOperator_socketsLeave_def BroadcastOperator_disconnectSockets_def Let_def
      publish_attributes)

lemma emitter_actions_attributes:
  assumes "n = BroadcastOptions.nsp (Emitter.broadcastOptions e)"
  shows "ev \<notin> set RESERVED_EVENTS \<Longrightarrow>
      list_all (nsp_uid_attributes n) (new_commands s (snd (Emitter_emit env e ev args s)))"
    and "list_all (nsp_uid_attributes n)
        (new_commands s (snd (Emitter_socketsJoin env e r s)))"
    and "list_all (nsp_uid_attributes n)
        (new_commands s (snd (Emitter_socketsLeave env e r s)))"
    and "list_all (nsp_uid_attributes n)
        (new_commands s (snd (Emitter_disconnectSockets env e close_arg s)))"
  using assms
  by (simp_all add: Emitter_emit_def Emitter_socketsJoin_def Emitter_socketsLeave_def
      Emitter_disconnectSockets_def new_BroadcastOperator_eq Let_def
      operator_actions_attributes)

lemma serverSideEmit_attributes:
  "\<not> (args \<noteq> [] \<and> (\<exists>f. last args = JFun f)) \<Longrightarrow>
   n = BroadcastOptions.nsp (Emitter.broadcastOptions e) \<Longrightarrow>
   list_all (nsp_uid_attributes n)
     (new_commands s (snd (Emitter_serverSideEmit env e args s)))"
  by (simp add: serverSideEmit_publishes publish_attributes)

text \<open>
  Claim C10. Take the emitter constructed with the namespace \<open>n\<close> (the constructor keeps
  it as given), and any operator \<open>b\<close> whose broadcast options carry \<open>n\<close>; every operator
  that a selector of this emitter or of \<open>b\<close> returns is such an operator. In every command
  that one of the five actions hands to the client, the attribute \<^verbatim>\<open>nsp\<close> is absent when
  \<open>n\<close> is the empty string and is the string attribute \<open>n\<close> otherwise; the attribute
  \<^verbatim>\<open>uid\<close> is the string attribute \<^verbatim>\<open>"emitter"\<close> in both cases.
\<close>

theorem namespace_attribute:
  assumes "ev \<notin> set RESERVED_EVENTS"
    and "\<not> (args \<noteq> [] \<and> (\<exists>f. last args = JFun f))"
    and "BroadcastOptions.nsp (BroadcastOperator.broadcastOptions b) = n"
  shows "(\<forall>s' \<in> set
        [snd (Emitter_emit env (new_Emitter c t (Some n)) ev args s),
         snd (Emitter_socketsJoin env (new_Emitter c t (Some n)) r s),
         snd (Emitter_socketsLeave env (new_Emitter c t (Some n)) r s),
         snd (Emitter_disconnectSockets env (new_Emitter c t (Some n)) close_arg s),
         snd (Emitter_serverSideEmit env (new_Emitter c t (Some n)) args s),
         snd (BroadcastOperator_emit env b ev args s),
         snd (BroadcastOperator_socketsJoin env b r s),
         snd (BroadcastOperator_socketsLeave env b r s),
         snd (BroadcastOperator_disconnectSockets env b close s)].
      list_all (nsp_uid_attributes n) (new_commands s s')) \<and>
    (\<forall>b' \<in> set
        [fst (Emitter_to (new_Emitter c t (Some n)) r s),
         fst (Emitter_in (new_Emitter c t (Some n)) r s),
         fst (Emitter_except (new_Emitter c t (Some n)) r s),
         fst (Emitter_volatile (new_Emitter c t (Some n)) s),
         fst (Emitter_compress (new_Emitter c t (Some n)) cp s),
         fst (BroadcastOperator_to b r s),
         fst (BroadcastOperator_in b r s),
         fst (BroadcastOperator_except b r s),
         fst (BroadcastOperator_volatile b s),
         fst (BroadcastOperator_compress b cp s)].
      BroadcastOptions.nsp (BroadcastOperator.broadcastOptions b') = n)"
proof -
  have e: "n = BroadcastOptions.nsp (Emitter.broadcastOptions (new_Emitter c t (Some n)))"
    by (simp add: new_Emitter_eq)
  have b: "n = BroadcastOptions.nsp (BroadcastOperator.broadcastOptions b)"
    using assms(3) by simp
  have same: "sent s = sent s"
    by simp
  show ?thesis
    using assms(3) e [symmetric]
    by (simp add: serverSideEmit_attributes [OF assms(2) e]
        operator_actions_attributes(1) [OF same b assms(1)]
        operator_actions_attributes(2-4) [OF same b]
        emitter_actions_attributes(1) [OF e assms(1)]
        emitter_actions_attributes(2-4) [OF e]
        selectors_keep_options emitter_selectors_options)
qed

theorem namespace_attribute_witness:
  "new_commands init (snd (Emitter_emit adapter_env empty_namespace_emitter
      ''hello'' [JStr ''world''] init)) \<noteq> [] \<and>
   list_all (nsp_uid_attributes '''')
     (new_commands init (snd (Emitter_emit adapter_env empty_namespace_emitter
        ''hello'' [JStr ''world''] init))) \<and>
   new_commands (snd example_target) (snd (BroadcastOperator_emit adapter_env
      (fst example_target) ''hello'' [JStr ''world''] (snd example_target))) \<noteq> [] \<and>
   list_all (nsp_uid_attributes ''/'')
     (new_commands (snd example_target) (snd (BroadcastOperator_emit adapter_env
        (fst example_target) ''hello'' [JStr ''world''] (snd example_target)))) \<and>
   BroadcastOptions.nsp (BroadcastOperator.broadcastOptions
     (fst (Emitter_to empty_namespace_emitter (Room ''room1'') init))) = ''''"
proof -
  have reserved: "''hello'' \<notin> set RESERVED_EVENTS"
    by (simp add: RESERVED_EVENTS_def)
  have ack: "\<not> ([JStr ''world''] \<noteq> [] \<and> (\<exists>f. last [JStr ''world''] = JFun f))"
    by simp
  have empty: "BroadcastOptions.nsp (BroadcastOperator.broadcastOptions
      (fst (Emitter_to empty_namespace_emitter (Room ''room1'') init))) = ''''"
    by (simp add: emitter_selectors_options empty_namespace_emitter_def new_Emitter_eq)
  have root: "BroadcastOptions.nsp (BroadcastOperator.broadcastOptions (fst example_target)) =
      ''/''"
    by (simp add: example_target_def emitter_selectors_options example_emitter_def
        new_Emitter_eq)
  have sent1: "new_commands init (snd (Emitter_emit adapter_env
      (new_Emitter ok_client ''arn:aws:sns:eu-central-1:000000000000:socket-io'' (Some ''''))
      ''hello'' [JStr ''world''] init)) \<noteq> []"
    by (simp add: Emitter_emit_def new_BroadcastOperator_eq BroadcastOperator_emit_def reserved
        Let_def publish_new_commands messageAttributes_truthy example_encode_simps spread_def
        flags_value_def init_def)
  have sent2: "new_commands (snd example_target) (snd (BroadcastOperator_emit adapter_env
      (fst example_target) ''hello'' [JStr ''world''] (snd example_target))) \<noteq> []"
    by (simp add: example_target_eq BroadcastOperator_emit_def reserved Let_def
        publish_new_commands messageAttributes_truthy example_encode_simps spread_def
        flags_value_def init_def)
  show ?thesis
    using namespace_attribute [OF reserved ack empty, where env = adapter_env and c = ok_client
        and t = "''arn:aws:sns:eu-central-1:000000000000:socket-io''" and s = init
        and r = "Room ''room1''" and close_arg = None and close = False and cp = True]
      namespace_attribute [OF reserved ack root, where env = adapter_env and c = ok_client
        and t = "''arn:aws:sns:eu-central-1:000000000000:socket-io''"
        and s = "snd example_target"
        and r = "Room ''room2''" and close_arg = None and close = False and cp = True]
    by (simp add: empty_namespace_emitter_def sent1 sent2 empty)
qed

subsection \<open>The message of emit\<close>

lemma operator_emit_publishes:
  "ev \<notin> set RESERVED_EVENTS \<Longrightarrow>
   BroadcastOperator_emit env b ev args s =
     (Inr True,
      publish env (BroadcastOperator.snsClient b)
        (BroadcastOptions.topicArn (BroadcastOperator.broadcastOptions b))
        (BROADCAST (MessageType env))
        (BroadcastOptions.nsp (BroadcastOperator.broadcastOptions b)) UID
        (JObj [(''packet'',
                JObj [(''type'', JNum (int (PacketType_EVENT env))),
                      (''data'', JArr (JStr ev # args)),
                      (''nsp'', JStr (BroadcastOptions.nsp
                         (BroadcastOperator.broadcastOptions b)))]),
               (''opts'',
                JObj [(''rooms'', JArr (map JStr (Sets s (rooms b)))),
                      (''flags'', JObj (map (\<lambda>(k, v). (k, JBool v)) (Objects s (flags b)))),
                      (''except'', JArr (map JStr (Sets s (exceptRooms b))))])]) s)"
  by (simp add: BroadcastOperator_emit_def Let_def spread_def flags_value_def)

lemma emitter_emit_publishes:
  "ev \<notin> set RESERVED_EVENTS \<Longrightarrow>
   Emitter_emit env e ev args s =
     (Inr True,
      publish env (Emitter.snsClient e) (BroadcastOptions.topicArn (Emitter.broadcastOptions e))
        (BROADCAST (MessageType env)) (BroadcastOptions.nsp (Emitter.broadcastOptions e)) UID
        (JObj [(''packet'',
                JObj [(''type'', JNum (int (PacketType_EVENT env))),
                      (''data'', JArr (JStr ev # args)),
                      (''nsp'', JStr (BroadcastOptions.nsp (Emitter.broadcastOptions e)))]),
               (''opts'',
                JObj [(''rooms'', JArr []), (''flags'', JObj []), (''except'', JArr [])])])
        (s\<lparr>Sets := (Sets s)(next_ref s := [], Suc (next_ref s) := []),
           Objects := (Objects s)(Suc (Suc (next_ref s)) := []),
           next_ref := Suc (Suc (Suc (next_ref s)))\<rparr>))"
  by (simp add: Emitter_emit_def new_BroadcastOperator_eq operator_emit_publishes)

text \<open>
  Claim C6, as stated, fails twice. For an emitter whose namespace is the empty string,
  \<^verbatim>\<open>new Emitter(client, arn, "").emit("hello", "world")\<close> hands the client one command whose
  attributes are \<^verbatim>\<open>uid\<close> and \<^verbatim>\<open>data\<close> only, since \<^verbatim>\<open>publish\<close> adds \<^verbatim>\<open>nsp\<close> under \<^verbatim>\<open>if (nsp)\<close>. And
  for an argument that the codec refuses, \<^verbatim>\<open>emit("hello", () => {})\<close> resolves to \<^verbatim>\<open>true\<close>, logs
  the codec's error and hands nothing to the client.
\<close>

theorem emit_nsp_attribute_counterexample:
  "map (\<lambda>k. dom (MessageAttributes k)) (sent (snd (Emitter_emit adapter_env
      empty_namespace_emitter ''hello'' [JStr ''world''] init))) = [{''uid'', ''data''}] \<and>
   fst (Emitter_emit adapter_env example_emitter ''hello'' [JFun 0] init) = Inr True \<and>
   sent (snd (Emitter_emit adapter_env example_emitter ''hello'' [JFun 0] init)) = [] \<and>
   console (snd (Emitter_emit adapter_env example_emitter ''hello'' [JFun 0] init)) =
     [Error ''Could not encode'']"
proof -
  have reserved: "''hello'' \<notin> set RESERVED_EVENTS"
    by (simp add: RESERVED_EVENTS_def)
  have empty: "BroadcastOptions.nsp (Emitter.broadcastOptions empty_namespace_emitter) = []"
    by (simp add: empty_namespace_emitter_def new_Emitter_eq)
  show ?thesis
    by (simp add: emitter_emit_publishes [OF reserved] publish_sent publish_console
        messageAttributes_truthy example_encode_simps empty init_traces insert_commute)
qed

text \<open>
  Claim C6, amended. For every event name that is not reserved and every argument list,
  \<^verbatim>\<open>emit\<close> resolves to \<^verbatim>\<open>true\<close> and gives the codec one value, the payload: the field \<^verbatim>\<open>packet\<close>
  (the type \<^verbatim>\<open>PacketType.EVENT\<close>, the data \<^verbatim>\<open>[ev, ...args]\<close>, the namespace) and the field \<^verbatim>\<open>opts\<close>
  (the rooms in insertion order, the flags object, the excluded rooms in insertion order),
  read from the store at the call; for \<^verbatim>\<open>emit\<close> of an emitter the rooms, the flags and the
  excluded rooms are empty. When the codec returns bytes for the payload, \<^verbatim>\<open>emit\<close> hands the
  client exactly one command: its topic is the topic of the broadcast options, its message is
  the decimal string of \<^verbatim>\<open>MessageType.BROADCAST\<close>, and its attributes are \<^verbatim>\<open>uid\<close> (the string
  \<^verbatim>\<open>"emitter"\<close>), \<^verbatim>\<open>data\<close> (these bytes) and, when the namespace is not the empty string, \<^verbatim>\<open>nsp\<close>
  (the namespace). When the codec throws, nothing is handed to the client and the codec's
  error is logged.
\<close>

theorem emit_wire_message:
  assumes "ev \<notin> set RESERVED_EVENTS"
    and "payload =
      JObj [(''packet'',
             JObj [(''type'', JNum (int (PacketType_EVENT env))),
                   (''data'', JArr (JStr ev # args)),
                   (''nsp'', JStr (BroadcastOptions.nsp
                      (BroadcastOperator.broadcastOptions b)))]),
            (''opts'',
             JObj [(''rooms'', JArr (map JStr (Sets s (rooms b)))),
                   (''flags'', JObj (map (\<lambda>(k, v). (k, JBool v)) (Objects s (flags b)))),
                   (''except'', JArr (map JStr (Sets s (exceptRooms b))))])]"
    and "emitter_payload =
      JObj [(''packet'',
             JObj [(''type'', JNum (int (PacketType_EVENT env))),
                   (''data'', JArr (JStr ev # args)),
                   (''nsp'', JStr (BroadcastOptions.nsp (Emitter.broadcastOptions e)))]),
            (''opts'',
             JObj [(''rooms'', JArr []), (''flags'', JObj []), (''except'', JArr [])])]"
  shows "fst (BroadcastOperator_emit env b ev args s) = Inr True \<and>
    encoded (snd (BroadcastOperator_emit env b ev args s)) = encoded s @ [payload] \<and>
    (encode env payload = Inr bytes \<longrightarrow>
       sent (snd (BroadcastOperator_emit env b ev args s)) = sent s @
         [\<lparr>TopicArn = BroadcastOptions.topicArn (BroadcastOperator.broadcastOptions b),
           Message = String_number (BROADCAST (MessageType env)),
           MessageAttributes =
             (if BroadcastOptions.nsp (BroadcastOperator.broadcastOptions b) = []
              then Map.empty
              else [''nsp'' \<mapsto> \<lparr>DataType = ''String'',
                      StringValue = Some (BroadcastOptions.nsp
                        (BroadcastOperator.broadcastOptions b)),
                      BinaryValue = None\<rparr>])
             (''uid'' \<mapsto> \<lparr>DataType = ''String'', StringValue = Some ''emitter'',
                            BinaryValue = None\<rparr>,
              ''data'' \<mapsto> \<lparr>DataType = ''Binary'', StringValue = None,
                             BinaryValue = Some bytes\<rparr>)\<rparr>]) \<and>
    (encode env payload = Inl x \<longrightarrow>
       sent (snd (BroadcastOperator_emit env b ev args s)) = sent s \<and>
       console (snd (BroadcastOperator_emit env b ev args s)) = console s @ [x]) \<and>
    fst (Emitter_emit env e ev args s) = Inr True \<and>
    encoded (snd (Emitter_emit env e ev args s)) = encoded s @ [emitter_payload] \<and>
    (encode env emitter_payload = Inr emitter_bytes \<longrightarrow>
       sent (snd (Emitter_emit env e ev args s)) = sent s @
         [\<lparr>TopicArn = BroadcastOptions.topicArn (Emitter.broadcastOptions e),
           Message = String_number (BROADCAST (MessageType env)),
           MessageAttributes =
             (if BroadcastOptions.nsp (Emitter.broadcastOptions e) = [] then Map.empty
              else [''nsp'' \<mapsto> \<lparr>DataType = ''String'',
                      StringValue = Some (BroadcastOptions.nsp (Emitter.broadcastOptions e)),
                      BinaryValue = None\<rparr>])
             (''uid'' \<mapsto> \<lparr>DataType = ''String'', StringValue = Some ''emitter'',
                            BinaryValue = None\<rparr>,
              ''data'' \<mapsto> \<lparr>DataType = ''Binary'', StringValue = None,
                             BinaryValue = Some emitter_bytes\<rparr>)\<rparr>]) \<and>
    (encode env emitter_payload = Inl y \<longrightarrow>
       sent (snd (Emitter_emit env e ev args s)) = sent s \<and>
       console (snd (Emitter_emit env e ev args s)) = console s @ [y])"
proof -
  have truthy: "truthy payload" "truthy emitter_payload"
    by (simp_all add: assms(2,3))
  have operator: "BroadcastOperator_emit env b ev args s =
      (Inr True,
       publish env (BroadcastOperator.snsClient b)
         (BroadcastOptions.topicArn (BroadcastOperator.broadcastOptions b))
         (BROADCAST (MessageType env))
         (BroadcastOptions.nsp (BroadcastOperator.broadcastOptions b)) UID payload s)"
    unfolding assms(2) using assms(1) by (rule operator_emit_publishes)
  have emitter: "Emitter_emit env e ev args s =
      (Inr True,
       publish env (Emitter.snsClient e) (BroadcastOptions.topicArn (Emitter.broadcastOptions e))
         (BROADCAST (MessageType env)) (BroadcastOptions.nsp (Emitter.broadcastOptions e)) UID
         emitter_payload
         (s\<lparr>Sets := (Sets s)(next_ref s := [], Suc (next_ref s) := []),
            Objects := (Objects s)(Suc (Suc (next_ref s)) := []),
            next_ref := Suc (Suc (Suc (next_ref s)))\<rparr>))"
    unfolding assms(3) using assms(1) by (rule emitter_emit_publishes)
  show ?thesis
    unfolding operator emitter
    by (simp add: truthy publish_encoded publish_accepted [OF truthy(1)] publish_refused [OF truthy(1)]
        publish_accepted [OF truthy(2)] publish_refused [OF truthy(2)])
qed

theorem emit_wire_message_witness:
  "sent (snd (BroadcastOperator_emit adapter_env (fst volatile_target) ''hello''
      [JStr ''world'', JNum 1] (snd volatile_target))) =
     [\<lparr>TopicArn = ''arn:aws:sns:eu-central-1:000000000000:socket-io'', Message = ''3'',
       MessageAttributes =
         [''nsp'' \<mapsto> \<lparr>DataType = ''String'', StringValue = Some ''/'', BinaryValue = None\<rparr>,
          ''uid'' \<mapsto> \<lparr>DataType = ''String'', StringValue = Some ''emitter'',
                        BinaryValue = None\<rparr>,
          ''data'' \<mapsto> \<lparr>DataType = ''Binary'', StringValue = None, BinaryValue = Some []\<rparr>]\<rparr>] \<and>
   encoded (snd (BroadcastOperator_emit adapter_env (fst volatile_target) ''hello''
      [JStr ''world'', JNum 1] (snd volatile_target))) =
     [JObj [(''packet'',
             JObj [(''type'', JNum 2), (''data'', JArr [JStr ''hello'', JStr ''world'', JNum 1]),
                   (''nsp'', JStr ''/'')]),
            (''opts'',
             JObj [(''rooms'', JArr []), (''flags'', JObj [(''volatile'', JBool True)]),
                   (''except'', JArr [])])]] \<and>
   sent (snd (Emitter_emit adapter_env example_emitter ''hello'' [JStr ''world'', JFun 0]
      init)) = [] \<and>
   console (snd (Emitter_emit adapter_env example_emitter ''hello'' [JStr ''world'', JFun 0]
      init)) = [Error ''Could not encode'']"
proof -
  have reserved: "''hello'' \<notin> set RESERVED_EVENTS"
    by (simp add: RESERVED_EVENTS_def)
  have first: "sent (snd (BroadcastOperator_emit adapter_env (fst volatile_target) ''hello''
      [JStr ''world'', JNum 1] (snd volatile_target))) =
     [\<lparr>TopicArn = ''arn:aws:sns:eu-central-1:000000000000:socket-io'', Message = ''3'',
       MessageAttributes =
         [''nsp'' \<mapsto> \<lparr>DataType = ''String'', StringValue = Some ''/'', BinaryValue = None\<rparr>,
          ''uid'' \<mapsto> \<lparr>DataType = ''String'', StringValue = Some ''emitter'',
                        BinaryValue = None\<rparr>,
          ''data'' \<mapsto> \<lparr>DataType = ''Binary'', StringValue = None, BinaryValue = Some []\<rparr>]\<rparr>] \<and>
   encoded (snd (BroadcastOperator_emit adapter_env (fst volatile_target) ''hello''
      [JStr ''world'', JNum 1] (snd volatile_target))) =
     [JObj [(''packet'',
             JObj [(''type'', JNum 2), (''data'', JArr [JStr ''hello'', JStr ''world'', JNum 1]),
                   (''nsp'', JStr ''/'')]),
            (''opts'',
             JObj [(''rooms'', JArr []), (''flags'', JObj [(''volatile'', JBool True)]),
                   (''except'', JArr [])])]]"
    using emit_wire_message [OF reserved refl refl, where env = adapter_env
        and b = "fst volatile_target" and args = "[JStr ''world'', JNum 1]"
        and s = "snd volatile_target" and e = example_emitter and bytes = "[]"
        and emitter_bytes = "[]" and x = "Error ''Could not encode''"
        and y = "Error ''Could not encode''"]
    by (simp add: example_encode_simps volatile_target_eq init_def adapter_env_types
        String_number_digits)
  have second: "sent (snd (Emitter_emit adapter_env example_emitter ''hello''
      [JStr ''world'', JFun 0] init)) = [] \<and>
   console (snd (Emitter_emit adapter_env example_emitter ''hello'' [JStr ''world'', JFun 0]
      init)) = [Error ''Could not encode'']"
    using emit_wire_message [OF reserved refl refl, where env = adapter_env
        and b = "fst volatile_target" and args = "[JStr ''world'', JFun 0]"
        and s = init and e = example_emitter and bytes = "[]"
        and emitter_bytes = "[]" and x = "Error ''Could not encode''"
        and y = "Error ''Could not encode''"]
    by (simp add: example_encode_simps init_traces)
  from first second show ?thesis
    by simp
qed

subsection \<open>The messages of socketsJoin, socketsLeave and disconnectSockets\<close>

lemma operator_sockets_publish:
  "BroadcastOperator_socketsJoin env b r s =
     (Inr (),
      publish env (BroadcastOperator.snsClient b)
        (BroadcastOptions.topicArn (BroadcastOperator.broadcastOptions b))
        (SOCKETS_JOIN (MessageType env))
        (BroadcastOptions.nsp (BroadcastOperator.broadcastOptions b)) UID
        (JObj [(''opts'', JObj [(''rooms'', JArr (map JStr (Sets s (rooms b)))),
                                (''except'', JArr (map JStr (Sets s (exceptRooms b))))]),
               (''rooms'',
                JArr (map JStr (case r of Rooms rs \<Rightarrow> rs | Room x \<Rightarrow> [x])))]) s)"
  "BroadcastOperator_socketsLeave env b r s =
     (Inr (),
      publish env (BroadcastOperator.snsClient b)
        (BroadcastOptions.topicArn (BroadcastOperator.broadcastOptions b))
        (SOCKETS_LEAVE (MessageType env))
        (BroadcastOptions.nsp (BroadcastOperator.broadcastOptions b)) UID
        (JObj [(''opts'', JObj [(''rooms'', JArr (map JStr (Sets s (rooms b)))),
                                (''except'', JArr (map JStr (Sets s (exceptRooms b))))]),
               (''rooms'',
                JArr (map JStr (case r of Rooms rs \<Rightarrow> rs | Room x \<Rightarrow> [x])))]) s)"
  "BroadcastOperator_disconnectSockets env b close s =
     (Inr (),
      publish env (BroadcastOperator.snsClient b)
        (BroadcastOptions.topicArn (BroadcastOperator.broadcastOptions b))
        (DISCONNECT_SOCKETS (MessageType env))
        (BroadcastOptions.nsp (BroadcastOperator.broadcastOptions b)) UID
        (JObj [(''opts'', JObj [(''rooms'', JArr (map JStr (Sets s (rooms b)))),
                                (''except'', JArr (map JStr (Sets s (exceptRooms b))))]),
               (''close'', JBool close)]) s)"
  by (simp_all add: BroadcastOperator_socketsJoin_def BroadcastOperator_socketsLeave_def
      BroadcastOperator_disconnectSockets_def spread_def room_list_def)

text \<open>
  Claim C2, as stated, fails: the targeting record of these three messages has no flags.
  The target \<^verbatim>\<open>emitter.volatile\<close> has the flags object \<^verbatim>\<open>{volatile: true}\<close>, and the payloads
  that its \<^verbatim>\<open>socketsJoin("room1")\<close>, \<^verbatim>\<open>socketsLeave("room1")\<close> and \<^verbatim>\<open>disconnectSockets(true)\<close>
  give to the codec have an \<^verbatim>\<open>opts\<close> record with the fields \<^verbatim>\<open>rooms\<close> and \<^verbatim>\<open>except\<close> only.
\<close>

theorem sockets_actions_flags_counterexample:
  "Objects (snd volatile_target) (flags (fst volatile_target)) = [(''volatile'', True)] \<and>
   encoded (snd (BroadcastOperator_socketsJoin adapter_env (fst volatile_target)
      (Room ''room1'') (snd volatile_target))) =
     [JObj [(''opts'', JObj [(''rooms'', JArr []), (''except'', JArr [])]),
            (''rooms'', JArr [JStr ''room1''])]] \<and>
   encoded (snd (BroadcastOperator_socketsLeave adapter_env (fst volatile_target)
      (Room ''room1'') (snd volatile_target))) =
     [JObj [(''opts'', JObj [(''rooms'', JArr []), (''except'', JArr [])]),
            (''rooms'', JArr [JStr ''room1''])]] \<and>
   encoded (snd (BroadcastOperator_disconnectSockets adapter_env (fst volatile_target)
      True (snd volatile_target))) =
     [JObj [(''opts'', JObj [(''rooms'', JArr []), (''except'', JArr [])]),
            (''close'', JBool True)]]"
  by (simp add: volatile_target_eq init_def operator_sockets_publish publish_encoded)

lemma flags_irrelevant:
  "sent (snd (BroadcastOperator_socketsJoin env (b\<lparr>flags := f\<rparr>) r (s\<lparr>Objects := fl\<rparr>))) =
     sent (snd (BroadcastOperator_socketsJoin env b r s))"
  "encoded (snd (BroadcastOperator_socketsJoin env (b\<lparr>flags := f\<rparr>) r (s\<lparr>Objects := fl\<rparr>))) =
     encoded (snd (BroadcastOperator_socketsJoin env b r s))"
  "sent (snd (BroadcastOperator_socketsLeave env (b\<lparr>flags := f\<rparr>) r (s\<lparr>Objects := fl\<rparr>))) =
     sent (snd (BroadcastOperator_socketsLeave env b r s))"
  "encoded (snd (BroadcastOperator_socketsLeave env (b\<lparr>flags := f\<rparr>) r (s\<lparr>Objects := fl\<rparr>))) =
     encoded (snd (BroadcastOperator_socketsLeave env b r s))"
  "sent (snd (BroadcastOperator_disconnectSockets env (b\<lparr>flags := f\<rparr>) close
       (s\<lparr>Objects := fl\<rparr>))) =
     sent (snd (BroadcastOperator_disconnectSockets env b close s))"
  "encoded (snd (BroadcastOperator_disconnectSockets env (b\<lparr>flags := f\<rparr>) close
       (s\<lparr>Objects := fl\<rparr>))) =
     encoded (snd (BroadcastOperator_disconnectSockets env b close s))"
  by (simp_all add: operator_sockets_publish publish_sent publish_encoded)

text \<open>
  Claim C2, amended. For every target, the payload that \<^verbatim>\<open>socketsJoin\<close> and \<^verbatim>\<open>socketsLeave\<close>
  give to the codec is the record of \<^verbatim>\<open>opts\<close> (the rooms and the excluded rooms of the target
  at the call, each in insertion order) and \<^verbatim>\<open>rooms\<close> (the argument, as a list also when it
  is one room); the payload of \<^verbatim>\<open>disconnectSockets\<close> is the record of the same \<^verbatim>\<open>opts\<close> and
  \<^verbatim>\<open>close\<close>. When the codec returns bytes for the payload, one command is handed to the client
  and its \<^verbatim>\<open>data\<close> attribute holds these bytes. The flags are no part of it: the commands handed
  to the client are the same whatever flags object the target has and whatever the flags
  objects hold.
\<close>

theorem sockets_actions_payload:
  "encoded (snd (BroadcastOperator_socketsJoin env b r s)) = encoded s @
     [JObj [(''opts'', JObj [(''rooms'', JArr (map JStr (Sets s (rooms b)))),
                             (''except'', JArr (map JStr (Sets s (exceptRooms b))))]),
            (''rooms'', JArr (map JStr (case r of Rooms rs \<Rightarrow> rs | Room x \<Rightarrow> [x])))]] \<and>
   (encode env
      (JObj [(''opts'', JObj [(''rooms'', JArr (map JStr (Sets s (rooms b)))),
                              (''except'', JArr (map JStr (Sets s (exceptRooms b))))]),
             (''rooms'', JArr (map JStr (case r of Rooms rs \<Rightarrow> rs | Room x \<Rightarrow> [x])))]) =
      Inr bytes \<longrightarrow>
    length (sent (snd (BroadcastOperator_socketsJoin env b r s))) = Suc (length (sent s)) \<and>
    MessageAttributes (last (sent (snd (BroadcastOperator_socketsJoin env b r s)))) ''data'' =
      Some \<lparr>DataType = ''Binary'', StringValue = None, BinaryValue = Some bytes\<rparr>) \<and>
   encoded (snd (BroadcastOperator_socketsLeave env b r s)) = encoded s @
     [JObj [(''opts'', JObj [(''rooms'', JArr (map JStr (Sets s (rooms b)))),
                             (''except'', JArr (map JStr (Sets s (exceptRooms b))))]),
            (''rooms'', JArr (map JStr (case r of Rooms rs \<Rightarrow> rs | Room x \<Rightarrow> [x])))]] \<and>
   (encode env
      (JObj [(''opts'', JObj [(''rooms'', JArr (map JStr (Sets s (rooms b)))),
                              (''except'', JArr (map JStr (Sets s (exceptRooms b))))]),
             (''rooms'', JArr (map JStr (case r of Rooms rs \<Rightarrow> rs | Room x \<Rightarrow> [x])))]) =
      Inr bytes \<longrightarrow>
    length (sent (snd (BroadcastOperator_socketsLeave env b r s))) = Suc (length (sent s)) \<and>
    MessageAttributes (last (sent (snd (BroadcastOperator_socketsLeave env b r s)))) ''data'' =
      Some \<lparr>DataType = ''Binary'', StringValue = None, BinaryValue = Some bytes\<rparr>) \<and>
   encoded (snd (BroadcastOperator_disconnectSockets env b close s)) = encoded s @
     [JObj [(''opts'', JObj [(''rooms'', JArr (map JStr (Sets s (rooms b)))),
                             (''except'', JArr (map JStr (Sets s (exceptRooms b))))]),
            (''close'', JBool close)]] \<and>
   (encode env
      (JObj [(''opts'', JObj [(''rooms'', JArr (map JStr (Sets s (rooms b)))),
                              (''except'', JArr (map JStr (Sets s (exceptRooms b))))]),
             (''close'', JBool close)]) = Inr close_bytes \<longrightarrow>
    length (sent (snd (BroadcastOperator_disconnectSockets env b close s))) =
      Suc (length (sent s)) \<and>
    MessageAttributes (last (sent (snd (BroadcastOperator_disconnectSockets env b close s))))
        ''data'' =
      Some \<lparr>DataType = ''Binary'', StringValue = None, BinaryValue = Some close_bytes\<rparr>) \<and>
   sent (snd (BroadcastOperator_socketsJoin env (b\<lparr>flags := f\<rparr>) r (s\<lparr>Objects := fl\<rparr>))) =
     sent (snd (BroadcastOperator_socketsJoin env b r s)) \<and>
   sent (snd (BroadcastOperator_socketsLeave env (b\<lparr>flags := f\<rparr>) r (s\<lparr>Objects := fl\<rparr>))) =
     sent (snd (BroadcastOperator_socketsLeave env b r s)) \<and>
   sent (snd (BroadcastOperator_disconnectSockets env (b\<lparr>flags := f\<rparr>) close
       (s\<lparr>Objects := fl\<rparr>))) =
     sent (snd (BroadcastOperator_disconnectSockets env b close s))"
  by (simp add: flags_irrelevant)
    (simp add: operator_sockets_publish publish_encoded publish_accepted)

theorem sockets_actions_payload_witness:
  "encoded (snd (BroadcastOperator_socketsJoin adapter_env (fst example_target)
      (Rooms [''room2'', ''room3'']) (snd example_target))) =
     [JObj [(''opts'', JObj [(''rooms'', JArr [JStr ''room1'']), (''except'', JArr [])]),
            (''rooms'', JArr [JStr ''room2'', JStr ''room3''])]] \<and>
   length (sent (snd (BroadcastOperator_socketsJoin adapter_env (fst example_target)
      (Rooms [''room2'', ''room3'']) (snd example_target)))) = 1 \<and>
   MessageAttributes (last (sent (snd (BroadcastOperator_socketsJoin adapter_env
      (fst example_target) (Rooms [''room2'', ''room3'']) (snd example_target))))) ''data'' =
     Some \<lparr>DataType = ''Binary'', StringValue = None, BinaryValue = Some []\<rparr> \<and>
   encoded (snd (BroadcastOperator_disconnectSockets adapter_env (fst example_target)
      False (snd example_target))) =
     [JObj [(''opts'', JObj [(''rooms'', JArr [JStr ''room1'']), (''except'', JArr [])]),
            (''close'', JBool False)]] \<and>
   length (sent (snd (BroadcastOperator_disconnectSockets adapter_env (fst example_target)
      False (snd example_target)))) = 1"
  using sockets_actions_payload [where env = adapter_env and b = "fst example_target"
      and r = "Rooms [''room2'', ''room3'']" and s = "snd example_target" and close = False
      and f = 7 and fl = "\<lambda>r. [(''compress'', True)]" and bytes = "[]"
      and close_bytes = "[]"]
  by (simp add: example_target_eq init_def example_encode_simps)

end
